theory Spec2Isabelle
  imports Main "HOL-Library.Word"
begin

section \<open>Values crossing the JavaScript boundary\<close>

text \<open>
  A thrown JavaScript \<open>Error\<close> carries a name and a message; the handlers of
  \<open>Controllers/User.js\<close> branch on both.
\<close>

datatype jserror = Error (name: string) (message: string)

text \<open>
  Values written into object literals handed to the document store. A property whose value
  is \<open>undefined\<close> is represented by the absence of the property.
\<close>

datatype jsval = JBool bool | JStr string

type_synonym obj = "(string \<times> jsval) list"

definition field :: "string \<Rightarrow> string option \<Rightarrow> obj" where
  "field p v = (case v of None \<Rightarrow> [] | Some s \<Rightarrow> [(p, JStr s)])"

text \<open>Interpolation of a possibly undefined string into a template literal.\<close>

definition interpolate :: "string option \<Rightarrow> string" where
  "interpolate v = (case v of None \<Rightarrow> ''undefined'' | Some s \<Rightarrow> s)"

section \<open>External collaborators\<close>

text \<open>
  Library functions the handlers call (bcrypt, validator, mongoose's identifier check, string
  built-ins, Buffer encoding) and the token utilities of \<open>utils/GenerateToken.js\<close>, which is
  not part of the sources at hand. They are parameters of the model.
  String lengths are counted in characters of the model's \<open>string\<close>.

  \<open>castObjectId\<close> is the cast that the store applies to an identifier given as a string: it
  yields the canonical form of the identifier (the form in which \<open>_id\<close> is stored and
  printed), or nothing when the string denotes no identifier. Several strings may denote
  one identifier, as upper-case and lower-case hexadecimal digits do.
\<close>

record libs =
  ObjectId_isValid :: "string \<Rightarrow> bool"
  castObjectId :: "string \<Rightarrow> string option"
  bcrypt_hash :: "string \<Rightarrow> string \<Rightarrow> string"
  bcrypt_compare :: "string \<Rightarrow> string \<Rightarrow> bool"
  validator_isEmail :: "string \<Rightarrow> bool"
  toLowerCase :: "string \<Rightarrow> string"
  trim :: "string \<Rightarrow> string"
  toString_base64 :: "8 word list \<Rightarrow> string"
  AccessToken :: "string \<Rightarrow> string"
  RefreshToken :: "string \<Rightarrow> string"
  verifyRefreshToken :: "string \<Rightarrow> jserror + string option"

text \<open>
  Every awaited call may reject for reasons outside the program (lost connection, signing
  failure). The calls are named, and what one request meets is collected in a \<open>world\<close>:
  which calls reject and with what error, the salt and the one-time code that the
  generators return, the identifier given to a new document, and the clock. Rejections
  that follow from the arguments of a call (an identifier that cannot be cast, a document
  that fails validation, missing data for bcrypt) are computed by the model of the call.
\<close>

datatype opname =
    User_findOne | User_findById | User_create | User_findByIdAndUpdate
  | User_findOneAndUpdate | User_deleteOne | OTP_findOne | OTP_create
  | Bcrypt_genSalt | Bcrypt_hash | Bcrypt_compare | OtpGenerator_generate
  | Access_Token | Refresh_Token

record world =
  throws :: "opname \<Rightarrow> jserror option"
  genSalt :: string
  generate :: string
  newObjectId :: string
  now :: nat

definition call :: "world \<Rightarrow> opname \<Rightarrow> (jserror + 'a) \<Rightarrow> jserror + 'a" where
  "call W opn r = (case throws W opn of Some e \<Rightarrow> Inl e | None \<Rightarrow> r)"

section \<open>The User schema (\<open>model/User.model.js\<close>)\<close>

text \<open>
  The schema declares five paths; \<open>timestamps: true\<close> adds \<open>createdAt\<close> and \<open>updatedAt\<close>,
  and every document has its identifier \<open>_id\<close> (field \<open>uid\<close>).
\<close>

record user =
  uid :: string
  Username :: string
  email :: string
  password :: string
  image :: "string option"
  isVerified :: bool
  createdAt :: nat
  updatedAt :: nat

definition userSchema_paths :: "string list" where
  "userSchema_paths = [''Username'', ''email'', ''password'', ''image'', ''isVerified'']"

text \<open>
  Reading a property of a document: a declared path yields its value, any other name yields
  \<open>undefined\<close> (\<open>None\<close>).
\<close>

definition get_path :: "user \<Rightarrow> string \<Rightarrow> jsval option" where
  "get_path u p =
     (if p = ''Username'' then Some (JStr (Username u))
      else if p = ''email'' then Some (JStr (email u))
      else if p = ''password'' then Some (JStr (password u))
      else if p = ''image'' then map_option JStr (image u)
      else if p = ''isVerified'' then Some (JBool (isVerified u))
      else None)"

text \<open>Casting of values to the declared type of a path.\<close>

fun castString :: "jsval \<Rightarrow> string" where
  "castString (JStr s) = s"
| "castString (JBool b) = (if b then ''true'' else ''false'')"

fun castBoolean :: "jsval \<Rightarrow> bool option" where
  "castBoolean (JBool b) = Some b"
| "castBoolean (JStr s) =
     (if s \<in> set [''true'', ''1'', ''yes''] then Some True
      else if s \<in> set [''false'', ''0'', ''no''] then Some False
      else None)"

text \<open>
  The schema is strict (no \<open>strict: false\<close> option is given): properties that name no
  declared path are dropped from documents and updates before they reach the collection.
\<close>

definition strict :: "obj \<Rightarrow> obj" where
  "strict ob = filter (\<lambda>(p, v). p \<in> set userSchema_paths) ob"

subsection \<open>Validators\<close>

text \<open>
  Each validator yields the messages of the failures it finds for one path; a path reports
  its first failure only. \<open>required\<close> rejects a missing value and the empty string; the
  other validators are skipped on a missing value.
\<close>

definition required :: "string \<Rightarrow> string option \<Rightarrow> string list" where
  "required msg v = (case v of None \<Rightarrow> [msg] | Some s \<Rightarrow> if s = [] then [msg] else [])"

definition minlength :: "nat \<Rightarrow> string \<Rightarrow> string option \<Rightarrow> string list" where
  "minlength n msg v = (case v of None \<Rightarrow> [] | Some s \<Rightarrow> if length s < n then [msg] else [])"

definition maxlength :: "nat \<Rightarrow> string \<Rightarrow> string option \<Rightarrow> string list" where
  "maxlength n msg v = (case v of None \<Rightarrow> [] | Some s \<Rightarrow> if n < length s then [msg] else [])"

definition validate :: "(string \<Rightarrow> bool) \<Rightarrow> string \<Rightarrow> string option \<Rightarrow> string list" where
  "validate P msg v = (case v of None \<Rightarrow> [] | Some s \<Rightarrow> if P s then [] else [msg])"

definition path_errors :: "string \<Rightarrow> string list \<Rightarrow> string list" where
  "path_errors p msgs = map (\<lambda>m. p @ '': '' @ m) (take 1 msgs)"

definition Username_errors :: "string option \<Rightarrow> string list" where
  "Username_errors v = path_errors ''Username''
     (required ''Username is required'' v
      @ minlength 2 ''Username must be at least 2 characters'' v
      @ maxlength 50 ''Username must not exceed 50 characters'' v)"

definition email_errors :: "libs \<Rightarrow> string option \<Rightarrow> string list" where
  "email_errors L v = path_errors ''email''
     (required ''Email is required'' v
      @ validate (validator_isEmail L) ''Please provide a valid email'' v
      @ maxlength 50 ''Email must not exceed 50 characters'' v)"

definition password_errors :: "string option \<Rightarrow> string list" where
  "password_errors v = path_errors ''password''
     (required ''Password is required'' v
      @ minlength 8 ''Password must be at least 8 characters'' v)"

fun join :: "string list \<Rightarrow> string" where
  "join [] = []"
| "join [m] = m"
| "join (m # ms) = m @ '', '' @ join ms"

subsection \<open>Operations of the \<open>User\<close> model\<close>

text \<open>The email path has the setters \<open>lowercase\<close> and \<open>trim\<close>; they run on stored values and on
  the values of query filters alike.\<close>

definition email_setters :: "libs \<Rightarrow> string \<Rightarrow> string" where
  "email_setters L s = trim L (toLowerCase L s)"

text \<open>
  \<open>User.create\<close>: drop undeclared properties, cast and run the setters, apply the default of
  \<open>isVerified\<close>, validate, then insert under the unique indexes on \<open>_id\<close>, \<open>Username\<close> and
  \<open>email\<close>. The result is the new document and the collection that holds it.
\<close>

definition User_create_impl :: "libs \<Rightarrow> world \<Rightarrow> obj \<Rightarrow> user list \<Rightarrow> jserror + (user \<times> user list)" where
  "User_create_impl L W ob us =
     (let d = map_of (strict ob);
          un = map_option (trim L \<circ> castString) (d ''Username'');
          em = map_option (email_setters L \<circ> castString) (d ''email'');
          pw = map_option castString (d ''password'');
          im = map_option castString (d ''image'');
          ve = (case d ''isVerified'' of None \<Rightarrow> Some False | Some v \<Rightarrow> castBoolean v);
          errs = Username_errors un @ email_errors L em @ password_errors pw
                 @ (case ve of None \<Rightarrow> [''isVerified: Cast to Boolean failed''] | Some b \<Rightarrow> [])
      in case (un, em, pw, ve) of
           (Some n, Some e, Some p, Some b) \<Rightarrow>
             if errs \<noteq> [] then Inl (Error ''ValidationError'' (''User validation failed: '' @ join errs))
             else if \<exists>u \<in> set us. uid u = newObjectId W \<or> Username u = n \<or> email u = e
             then Inl (Error ''MongoServerError'' ''E11000 duplicate key error'')
             else (let doc = \<lparr>uid = newObjectId W, Username = n, email = e, password = p,
                               image = im, isVerified = b, createdAt = now W, updatedAt = now W\<rparr>
                   in Inr (doc, us @ [doc]))
         | _ \<Rightarrow> Inl (Error ''ValidationError'' (''User validation failed: '' @ join errs)))"

text \<open>\<open>User.findOne({ email })\<close>. Every stored document has an email, so a filter whose
  email is undefined matches none.\<close>

definition User_findOne_email :: "libs \<Rightarrow> user list \<Rightarrow> string option \<Rightarrow> user option" where
  "User_findOne_email L us e =
     (case e of None \<Rightarrow> None | Some s \<Rightarrow> find (\<lambda>u. email u = email_setters L s) us)"

text \<open>
  A filter on \<open>_id\<close> is cast before the collection is searched, and a string that cannot be
  cast rejects the call with a \<open>CastError\<close> that quotes the string.
\<close>

definition CastError :: "string \<Rightarrow> jserror" where
  "CastError i = Error ''CastError''
     (''Cast to ObjectId failed for value '' @ [CHR 0x22] @ i @ [CHR 0x22]
      @ '' (type string) at path '' @ [CHR 0x22] @ ''_id'' @ [CHR 0x22]
      @ '' for model '' @ [CHR 0x22] @ ''User'' @ [CHR 0x22])"

text \<open>\<open>User.findById(id)\<close> and \<open>User.findOne({ _id: id })\<close>.\<close>

definition User_findById_impl :: "libs \<Rightarrow> user list \<Rightarrow> string \<Rightarrow> jserror + user option" where
  "User_findById_impl L us i =
     (case castObjectId L i of
        None \<Rightarrow> Inl (CastError i)
      | Some oid \<Rightarrow> Inr (find (\<lambda>u. uid u = oid) us))"

text \<open>
  One property of an update applied to a document: the value is cast to the type of the
  path and passes through the setters of the path; a value that cannot be cast rejects the
  update. Validators do not run on updates.
\<close>

definition set_path :: "libs \<Rightarrow> string \<times> jsval \<Rightarrow> user \<Rightarrow> jserror + user" where
  "set_path L pv u =
     (let p = fst pv; v = snd pv in
      if p = ''Username'' then Inr (u\<lparr>Username := trim L (castString v)\<rparr>)
      else if p = ''email'' then Inr (u\<lparr>email := email_setters L (castString v)\<rparr>)
      else if p = ''password'' then Inr (u\<lparr>password := castString v\<rparr>)
      else if p = ''image'' then Inr (u\<lparr>image := Some (castString v)\<rparr>)
      else if p = ''isVerified'' then
        (case castBoolean v of
           None \<Rightarrow> Inl (Error ''CastError'' ''Cast to Boolean failed'')
         | Some b \<Rightarrow> Inr (u\<lparr>isVerified := b\<rparr>))
      else Inr u)"

fun set_paths :: "libs \<Rightarrow> obj \<Rightarrow> user \<Rightarrow> jserror + user" where
  "set_paths L [] u = Inr u"
| "set_paths L (pv # ob) u =
     (case set_path L pv u of Inl e \<Rightarrow> Inl e | Inr u' \<Rightarrow> set_paths L ob u')"

text \<open>
  \<open>User.findByIdAndUpdate(id, update)\<close> and \<open>User.findOneAndUpdate({ _id: id }, update)\<close>:
  the identifier is cast, the update is reduced to its declared paths, \<open>updatedAt\<close> is set
  to the current time, and the first document with the identifier is replaced. Without such a document the
  collection stays as it is.
\<close>

fun update_first :: "string \<Rightarrow> (user \<Rightarrow> jserror + user) \<Rightarrow> user list \<Rightarrow> jserror + user list" where
  "update_first i f [] = Inr []"
| "update_first i f (u # us) =
     (if uid u = i then (case f u of Inl e \<Rightarrow> Inl e | Inr u' \<Rightarrow> Inr (u' # us))
      else (case update_first i f us of Inl e \<Rightarrow> Inl e | Inr us' \<Rightarrow> Inr (u # us')))"

definition User_update_impl :: "libs \<Rightarrow> world \<Rightarrow> string \<Rightarrow> obj \<Rightarrow> user list \<Rightarrow> jserror + user list" where
  "User_update_impl L W i upd us =
     (case castObjectId L i of
        None \<Rightarrow> Inl (CastError i)
      | Some oid \<Rightarrow>
          update_first oid (\<lambda>u. set_paths L (strict upd) (u\<lparr>updatedAt := now W\<rparr>)) us)"

text \<open>\<open>User.deleteOne({ _id: id })\<close> removes the first document with the identifier.\<close>

fun delete_first :: "string \<Rightarrow> user list \<Rightarrow> user list" where
  "delete_first oid [] = []"
| "delete_first oid (u # us) = (if uid u = oid then us else u # delete_first oid us)"

definition User_deleteOne_impl :: "libs \<Rightarrow> string \<Rightarrow> user list \<Rightarrow> jserror + user list" where
  "User_deleteOne_impl L i us =
     (case castObjectId L i of
        None \<Rightarrow> Inl (CastError i)
      | Some oid \<Rightarrow> Inr (delete_first oid us))"

section \<open>The one-time-password collection\<close>

text \<open>
  Modelled from the spec: the OTP model (\<open>model/OTP.js\<close>) is not among the sources. The spec
  describes a record of an email and a code, found by exact match of the pair
  \<open>(email, code)\<close>, with no expiry in the lookup.
\<close>

record otp_record =
  otp_email :: "string option"
  otp_code :: "string option"

definition OTP_findOne_impl :: "otp_record list \<Rightarrow> string option \<Rightarrow> string option \<Rightarrow> otp_record option" where
  "OTP_findOne_impl os e c = find (\<lambda>r. otp_email r = e \<and> otp_code r = c) os"

definition OTP_create_impl :: "otp_record list \<Rightarrow> string option \<Rightarrow> string option \<Rightarrow> otp_record list" where
  "OTP_create_impl os e c = os @ [\<lparr>otp_email = e, otp_code = c\<rparr>]"

section \<open>Requests, responses and the server state\<close>

record upload =
  buffer :: "8 word list option"

record jwt_payload =
  aud :: "string option"

text \<open>
  What a handler reads from the request: the path parameter \<open>id\<close>, the properties of the
  JSON body (absent or a string), the uploaded file, the payload of the verified access
  token, and the cookies.
\<close>

record request =
  params_id :: string
  body :: "string \<Rightarrow> string option"
  req_file :: "upload option"
  payload :: "jwt_payload option"
  cookies :: "(string \<Rightarrow> string option) option"

record cookie =
  cookie_name :: string
  cookie_value :: string
  secure :: bool
  sameSite :: "string option"
  maxAge :: "nat option"
  httpOnly :: bool
  expires :: "nat option"

datatype json =
    Message string
  | ErrorMsg string
  | Text string
  | Tokens string string string string
  | Data user
  | Refreshed string string

text \<open>
  \<open>Message m\<close> is the body \<open>{ message: m }\<close>, \<open>ErrorMsg m\<close> is \<open>{ error: m }\<close>, \<open>Text m\<close> is the
  bare JSON string \<open>m\<close>, \<open>Tokens a r i e\<close> is \<open>{ accessToken, refreshToken, userId, email }\<close>,
  \<open>Data u\<close> is \<open>{ data: u }\<close> and \<open>Refreshed a r\<close> is \<open>{ AccessToken, refreshToken }\<close>.
\<close>

record response =
  statusCode :: nat
  res_cookies :: "cookie list"
  sent :: "json option"

text \<open>A fresh response has status 200 until \<open>res.status\<close> changes it.\<close>

definition res0 :: response where
  "res0 = \<lparr>statusCode = 200, res_cookies = [], sent = None\<rparr>"

definition res_status :: "nat \<Rightarrow> response \<Rightarrow> response" where
  "res_status n r = r\<lparr>statusCode := n\<rparr>"

definition res_json :: "json \<Rightarrow> response \<Rightarrow> response" where
  "res_json b r = r\<lparr>sent := Some b\<rparr>"

definition res_cookie :: "cookie \<Rightarrow> response \<Rightarrow> response" where
  "res_cookie c r = r\<lparr>res_cookies := res_cookies r @ [c]\<rparr>"

definition token_cookie :: "string \<Rightarrow> string \<Rightarrow> nat \<Rightarrow> cookie" where
  "token_cookie n v age = \<lparr>cookie_name = n, cookie_value = v, secure = True,
     sameSite = Some ''strict'', maxAge = Some age, httpOnly = False, expires = None\<rparr>"

definition cleared_cookie :: "string \<Rightarrow> cookie" where
  "cleared_cookie n = \<lparr>cookie_name = n, cookie_value = [], secure = False,
     sameSite = None, maxAge = None, httpOnly = True, expires = Some 0\<rparr>"

record mail =
  mail_to :: "string option"
  mail_otp :: "string option"
  mail_username :: string
  mail_kind :: string

text \<open>A pending \<open>setTimeout\<close>: the delay in milliseconds and what the callback closes over.\<close>

record timer =
  delay :: nat
  timer_id :: string
  timer_userDetails :: user

record state =
  users :: "user list"
  otps :: "otp_record list"
  mails :: "mail list"
  timers :: "timer list"
  logs :: "string list"

text \<open>
  Modelled from the spec: \<open>utils/SendMail.js\<close> is not among the sources. The spec describes
  \<open>sendMailer\<close> as a collaborator invoked with \<open>(email, otp, username, templateKind)\<close>,
  fire-and-forget; the model records the mail as handed over.
\<close>

definition sendMailer :: "string option \<Rightarrow> string option \<Rightarrow> string \<Rightarrow> string \<Rightarrow> state \<Rightarrow> state" where
  "sendMailer e c n k s =
     s\<lparr>mails := mails s @ [\<lparr>mail_to = e, mail_otp = c, mail_username = n, mail_kind = k\<rparr>]\<rparr>"

definition console_log :: "string \<Rightarrow> state \<Rightarrow> state" where
  "console_log m s = s\<lparr>logs := logs s @ [m]\<rparr>"

text \<open>How the \<open>try\<close> block of a handler ends.\<close>

datatype completion = Returned | Thrown jserror

text \<open>bcrypt rejects missing data.\<close>

definition bcrypt_hash_impl :: "libs \<Rightarrow> string option \<Rightarrow> string \<Rightarrow> jserror + string" where
  "bcrypt_hash_impl L d salt =
     (case d of None \<Rightarrow> Inl (Error ''Error'' ''data and salt arguments required'')
      | Some p \<Rightarrow> Inr (bcrypt_hash L p salt))"

definition bcrypt_compare_impl :: "libs \<Rightarrow> string option \<Rightarrow> string \<Rightarrow> jserror + bool" where
  "bcrypt_compare_impl L d h =
     (case d of None \<Rightarrow> Inl (Error ''Error'' ''data and hash arguments required'')
      | Some p \<Rightarrow> Inr (bcrypt_compare L p h))"

section \<open>The handlers (\<open>Controllers/User.js\<close>)\<close>

subsection \<open>register\<close>

definition register_try ::
  "libs \<Rightarrow> world \<Rightarrow> request \<Rightarrow> state \<Rightarrow> response \<Rightarrow> completion \<times> state \<times> response" where
  "register_try L W req s res =
     (case call W User_findOne (Inr (User_findOne_email L (users s) (body req ''email''))) of
        Inl err \<Rightarrow> (Thrown err, s, res)
      | Inr (Some duplicate) \<Rightarrow>
          (Returned, s,
           res_json (Message ''User already exists. Try signing up with a different email.'')
             (res_status 409 res))
      | Inr None \<Rightarrow>
     (case call W Bcrypt_genSalt (Inr (genSalt W)) of
        Inl err \<Rightarrow> (Thrown err, s, res)
      | Inr salt \<Rightarrow>
     (case call W Bcrypt_hash (bcrypt_hash_impl L (body req ''password'') salt) of
        Inl err \<Rightarrow> (Thrown err, s, res)
      | Inr hashedPwd \<Rightarrow>
     (case call W OtpGenerator_generate (Inr (generate W)) of
        Inl err \<Rightarrow> (Thrown err, s, res)
      | Inr otp \<Rightarrow>
     (case call W User_create
             (User_create_impl L W
                (field ''Username'' (body req ''Username'')
                 @ field ''firstName'' (body req ''firstName'')
                 @ field ''lastName'' (body req ''lastName'')
                 @ field ''phoneNumber'' (body req ''phoneNumber'')
                 @ field ''email'' (body req ''email'')
                 @ [(''password'', JStr hashedPwd),
                    (''image'', JStr (''https://api.dicebear.com/5.x/initials/svg?seed=''
                        @ interpolate (body req ''firstName'') @ '' ''
                        @ interpolate (body req ''lastName''))),
                    (''isVerified'', JBool False)])
                (users s)) of
        Inl err \<Rightarrow> (Thrown err, s, res)
      | Inr (usr, us) \<Rightarrow>
          \<comment> \<open>\<open>create\<close> resolves to a document, so the \<open>!user\<close> branch is never taken\<close>
     (let s1 = s\<lparr>users := us\<rparr> in
      case call W OTP_create (Inr (OTP_create_impl (otps s1) (body req ''email'') (Some otp))) of
        Inl err \<Rightarrow> (Thrown err, s1, res)
      | Inr os \<Rightarrow>
     (let s2 = sendMailer (body req ''email'') (Some otp) (Username usr) ''registration''
                 (s1\<lparr>otps := os\<rparr>) in
      case call W Access_Token (Inr (AccessToken L (uid usr))) of
        Inl err \<Rightarrow> (Thrown err, s2, res)
      | Inr accessToken \<Rightarrow>
     (case call W Refresh_Token (Inr (RefreshToken L (uid usr))) of
        Inl err \<Rightarrow> (Thrown err, s2, res)
      | Inr refreshToken \<Rightarrow>
          (Returned, s2,
           res_json (Tokens accessToken refreshToken (uid usr) (email usr))
             (res_status 201
               (res_cookie (token_cookie ''RefreshToken'' refreshToken (30 * 24 * 60 * 60 * 1000))
                 (res_cookie (token_cookie ''AccessToken'' accessToken (20 * 60 * 1000)) res))))))))))))"

definition register_catch :: "jserror \<Rightarrow> state \<Rightarrow> response \<Rightarrow> state \<times> response" where
  "register_catch err s res =
     (console_log (''Error during registration: '' @ message err) s,
      res_json (Message ''Internal server error'') (res_status 500 res))"

definition register :: "libs \<Rightarrow> world \<Rightarrow> request \<Rightarrow> state \<Rightarrow> state \<times> response" where
  "register L W req s =
     (case register_try L W req s res0 of
        (Returned, s', res) \<Rightarrow> (s', res)
      | (Thrown err, s', res) \<Rightarrow> register_catch err s' res)"

subsection \<open>login\<close>

definition login_try ::
  "libs \<Rightarrow> world \<Rightarrow> request \<Rightarrow> state \<Rightarrow> response \<Rightarrow> completion \<times> state \<times> response" where
  "login_try L W req s res =
     (case call W User_findOne (Inr (User_findOne_email L (users s) (body req ''email''))) of
        Inl err \<Rightarrow> (Thrown err, s, res)
      | Inr None \<Rightarrow> (Thrown (Error ''Error'' ''User not found''), s, res)
      | Inr (Some usr) \<Rightarrow>
     (case call W Bcrypt_compare (bcrypt_compare_impl L (body req ''password'') (password usr)) of
        Inl err \<Rightarrow> (Thrown err, s, res)
      | Inr isPasswordValid \<Rightarrow>
          if \<not> isPasswordValid then (Thrown (Error ''Error'' ''Invalid credentials''), s, res)
          else
     (case call W Access_Token (Inr (AccessToken L (uid usr))) of
        Inl err \<Rightarrow> (Thrown err, s, res)
      | Inr accessToken \<Rightarrow>
     (case call W Refresh_Token (Inr (RefreshToken L (uid usr))) of
        Inl err \<Rightarrow> (Thrown err, s, res)
      | Inr refreshToken \<Rightarrow>
          (Returned, s,
           res_json (Tokens accessToken refreshToken (uid usr) (email usr))
             (res_status 200
               (res_cookie (token_cookie ''RefreshToken'' refreshToken (30 * 24 * 60 * 60 * 1000))
                 (res_cookie (token_cookie ''AccessToken'' accessToken (20 * 60 * 1000)) res))))))))"

definition login_catch :: "jserror \<Rightarrow> state \<Rightarrow> response \<Rightarrow> state \<times> response" where
  "login_catch err s res =
     (console_log (message err) s,
      if message err = ''User not found''
      then res_json (ErrorMsg ''User not found'') (res_status 404 res)
      else if message err = ''Invalid credentials''
      then res_json (ErrorMsg ''Invalid credentials'') (res_status 401 res)
      else res_json (ErrorMsg ''Internal server error. Please try again later.'') res)"

definition login :: "libs \<Rightarrow> world \<Rightarrow> request \<Rightarrow> state \<Rightarrow> state \<times> response" where
  "login L W req s =
     (case login_try L W req s res0 of
        (Returned, s', res) \<Rightarrow> (s', res)
      | (Thrown err, s', res) \<Rightarrow> login_catch err s' res)"

subsection \<open>updatePassword\<close>

definition updatePassword_try ::
  "libs \<Rightarrow> world \<Rightarrow> request \<Rightarrow> state \<Rightarrow> response \<Rightarrow> completion \<times> state \<times> response" where
  "updatePassword_try L W req s res =
     (case call W User_findById (User_findById_impl L (users s) (params_id req)) of
        Inl err \<Rightarrow> (Thrown err, s, res)
      | Inr None \<Rightarrow> (Thrown (Error ''Error'' ''User not found''), s, res)
      | Inr (Some userDetails) \<Rightarrow>
          if \<not> isVerified userDetails then (Thrown (Error ''Error'' ''User is not verified''), s, res)
          else if body req ''newPassword'' \<noteq> body req ''confirmNewPassword''
          then (Thrown (Error ''Error'' ''New passwords do not match''), s, res)
          else
     (case call W Bcrypt_compare
             (bcrypt_compare_impl L (body req ''oldPassword'') (password userDetails)) of
        Inl err \<Rightarrow> (Thrown err, s, res)
      | Inr isPasswordMatch \<Rightarrow>
          if \<not> isPasswordMatch then (Thrown (Error ''Error'' ''Invalid old password''), s, res)
          else
     (case call W Bcrypt_genSalt (Inr (genSalt W)) of
        Inl err \<Rightarrow> (Thrown err, s, res)
      | Inr salt \<Rightarrow>
     (case call W Bcrypt_hash (bcrypt_hash_impl L (body req ''newPassword'') salt) of
        Inl err \<Rightarrow> (Thrown err, s, res)
      | Inr hashedPwd \<Rightarrow>
     (case call W User_findByIdAndUpdate
             (User_update_impl L W (params_id req) [(''password'', JStr hashedPwd)] (users s)) of
        Inl err \<Rightarrow> (Thrown err, s, res)
      | Inr us \<Rightarrow>
          (Returned, s\<lparr>users := us\<rparr>,
           res_json (Message ''Password updated successfully'') (res_status 200 res)))))))"

definition updatePassword_catch :: "jserror \<Rightarrow> state \<Rightarrow> response \<Rightarrow> state \<times> response" where
  "updatePassword_catch err s res =
     (console_log (message err) s,
      if message err = ''User not found''
      then res_json (ErrorMsg ''User not found'') (res_status 404 res)
      else if message err = ''User is not verified''
      then res_json (ErrorMsg ''User is not verified'') (res_status 401 res)
      else if message err = ''New passwords do not match''
      then res_json (ErrorMsg ''New passwords do not match'') (res_status 400 res)
      else if message err = ''Invalid old password''
      then res_json (ErrorMsg ''Invalid old password'') (res_status 401 res)
      else res_json (ErrorMsg ''Internal server error. Please try again later.'') res)"

definition updatePassword :: "libs \<Rightarrow> world \<Rightarrow> request \<Rightarrow> state \<Rightarrow> state \<times> response" where
  "updatePassword L W req s =
     (case updatePassword_try L W req s res0 of
        (Returned, s', res) \<Rightarrow> (s', res)
      | (Thrown err, s', res) \<Rightarrow> updatePassword_catch err s' res)"

subsection \<open>updateImage\<close>

definition updateImage_try ::
  "libs \<Rightarrow> world \<Rightarrow> request \<Rightarrow> state \<Rightarrow> response \<Rightarrow> completion \<times> state \<times> response" where
  "updateImage_try L W req s res =
     (if \<not> ObjectId_isValid L (params_id req)
      then (Thrown (Error ''Error'' ''Invalid user ID format''), s, res)
      else
     (case call W User_findById (User_findById_impl L (users s) (params_id req)) of
        Inl err \<Rightarrow> (Thrown err, s, res)
      | Inr None \<Rightarrow> (Thrown (Error ''Error'' ''User not found''), s, res)
      | Inr (Some userDetails) \<Rightarrow>
          if \<not> isVerified userDetails then (Thrown (Error ''Error'' ''User is not verified''), s, res)
          else
     (case req_file req of
        None \<Rightarrow> (Thrown (Error ''Error'' ''No image file provided''), s, res)
      | Some f \<Rightarrow>
     (case buffer f of
        None \<Rightarrow> (Thrown (Error ''TypeError'' ''Cannot read properties of undefined''), s, res)
      | Some bytes \<Rightarrow>
     (case call W User_findByIdAndUpdate
             (User_update_impl L W (params_id req)
                [(''image'', JStr (toString_base64 L bytes))] (users s)) of
        Inl err \<Rightarrow> (Thrown err, s, res)
      | Inr us \<Rightarrow>
          (Returned, s\<lparr>users := us\<rparr>,
           res_json (Message ''Image updated successfully'') (res_status 200 res)))))))"

definition updateImage_catch :: "jserror \<Rightarrow> state \<Rightarrow> response \<Rightarrow> state \<times> response" where
  "updateImage_catch err s res =
     (console_log (message err) s,
      if message err = ''Invalid user ID format''
      then res_json (ErrorMsg ''Invalid user ID format'') (res_status 400 res)
      else if message err = ''User not found''
      then res_json (ErrorMsg ''User not found'') (res_status 404 res)
      else if message err = ''User is not verified''
      then res_json (ErrorMsg ''User is not verified'') (res_status 401 res)
      else if message err = ''No image file provided''
      then res_json (ErrorMsg ''No image file provided'') (res_status 400 res)
      else res_json (ErrorMsg ''Internal server error. Please try again later.'') res)"

definition updateImage :: "libs \<Rightarrow> world \<Rightarrow> request \<Rightarrow> state \<Rightarrow> state \<times> response" where
  "updateImage L W req s =
     (case updateImage_try L W req s res0 of
        (Returned, s', res) \<Rightarrow> (s', res)
      | (Thrown err, s', res) \<Rightarrow> updateImage_catch err s' res)"

subsection \<open>logout\<close>

definition logout :: "request \<Rightarrow> state \<Rightarrow> state \<times> response" where
  "logout req s =
     (s, res_json (Message ''user logged out successfully'')
           (res_status 200
             (res_cookie (cleared_cookie ''RefreshToken'')
               (res_cookie (cleared_cookie ''AccessToken'') res0))))"

subsection \<open>userInfo\<close>

definition userInfo_try ::
  "libs \<Rightarrow> world \<Rightarrow> request \<Rightarrow> state \<Rightarrow> response \<Rightarrow> completion \<times> state \<times> response" where
  "userInfo_try L W req s res =
     (if \<not> ObjectId_isValid L (params_id req)
      then (Thrown (Error ''Error'' ''Invalid user ID format''), s, res)
      else
     (case payload req of
        None \<Rightarrow> (Thrown (Error ''TypeError'' ''Cannot read properties of undefined''), s, res)
      | Some pl \<Rightarrow>
          if aud pl \<noteq> Some (params_id req)
          then (Thrown (Error ''Error'' ''Invalid access token''), s, res)
          else
     (case call W User_findById (User_findById_impl L (users s) (params_id req)) of
        Inl err \<Rightarrow> (Thrown err, s, res)
      | Inr None \<Rightarrow> (Thrown (Error ''Error'' ''User not found''), s, res)
      | Inr (Some usr) \<Rightarrow>
          if \<not> isVerified usr then (Thrown (Error ''Error'' ''User is not verified''), s, res)
          else (Returned, s, res_json (Data usr) (res_status 200 res)))))"

definition userInfo_catch :: "jserror \<Rightarrow> state \<Rightarrow> response \<Rightarrow> state \<times> response" where
  "userInfo_catch err s res =
     (console_log (message err) s,
      if message err = ''Invalid user ID format''
      then res_json (ErrorMsg ''Invalid user ID format'') (res_status 400 res)
      else if message err = ''Invalid access token''
      then res_json (ErrorMsg ''Invalid access token'') (res_status 401 res)
      else if message err = ''User not found''
      then res_json (ErrorMsg ''User not found'') (res_status 404 res)
      else if message err = ''User is not verified''
      then res_json (ErrorMsg ''User is not verified'') (res_status 401 res)
      else res_json (ErrorMsg ''Internal server error. Please try again later.'') res)"

definition userInfo :: "libs \<Rightarrow> world \<Rightarrow> request \<Rightarrow> state \<Rightarrow> state \<times> response" where
  "userInfo L W req s =
     (case userInfo_try L W req s res0 of
        (Returned, s', res) \<Rightarrow> (s', res)
      | (Thrown err, s', res) \<Rightarrow> userInfo_catch err s' res)"

subsection \<open>deleteUser\<close>

text \<open>
  The callback handed to \<open>setTimeout\<close>, run in the world of the moment it fires. After
  \<open>User.deleteOne\<close> it evaluates \<open>Email\<close>, a name the module neither imports nor declares,
  which raises a \<open>ReferenceError\<close>; the \<open>catch\<close> of the callback logs it, and the statements
  that follow in the \<open>try\<close> block (clearing the cookies, answering) are not reached.
\<close>

definition deleteUser_timeout :: "libs \<Rightarrow> world \<Rightarrow> timer \<Rightarrow> state \<Rightarrow> state" where
  "deleteUser_timeout L W t s =
     (case call W User_deleteOne (User_deleteOne_impl L (timer_id t) (users s)) of
        Inl err \<Rightarrow> console_log (''Error in the setTimeout'' @ message err) s
      | Inr us \<Rightarrow>
          console_log (''Error in the setTimeout'' @ ''Email is not defined'') (s\<lparr>users := us\<rparr>))"

definition setTimeout :: "timer \<Rightarrow> state \<Rightarrow> state" where
  "setTimeout t s = s\<lparr>timers := timers s @ [t]\<rparr>"

text \<open>
  \<open>userDetails\<close> is the document as read at the start of the handler (the projection
  \<open>select("-password")\<close> hides a field the handler does not use).
\<close>

definition deleteUser_try ::
  "libs \<Rightarrow> world \<Rightarrow> request \<Rightarrow> state \<Rightarrow> response \<Rightarrow> completion \<times> state \<times> response" where
  "deleteUser_try L W req s res =
     (case call W User_findOne (User_findById_impl L (users s) (params_id req)) of
        Inl err \<Rightarrow> (Thrown err, s, res)
      | Inr None \<Rightarrow> (Returned, s, res_json (Text ''No such user found'') (res_status 409 res))
      | Inr (Some userDetails) \<Rightarrow>
          if isVerified userDetails then
     (case call W OTP_findOne
             (Inr (OTP_findOne_impl (otps s) (body req ''email'') (body req ''otp''))) of
        Inl err \<Rightarrow> (Thrown err, s, res)
      | Inr (Some foundOTP) \<Rightarrow>
     (case call W User_findOneAndUpdate
             (User_update_impl L W (params_id req)
                [(''markedForDeletion'', JBool True)] (users s)) of
        Inl err \<Rightarrow> (Thrown err, s, res)
      | Inr us \<Rightarrow>
     (let s1 = sendMailer (body req ''email'') (body req ''otp'') (Username userDetails)
                 ''accountDeleted'' (s\<lparr>users := us\<rparr>);
          s2 = (if get_path userDetails ''markedForDeletion'' = Some (JBool True)
                then setTimeout \<lparr>delay = 1000 * 60 * 60, timer_id = params_id req,
                                 timer_userDetails = userDetails\<rparr> s1
                else s1)
      in (Returned, s2, res_json (Text ''User Deleted Successfully'') (res_status 200 res))))
      | Inr None \<Rightarrow>
          (Returned, s, res_json (Text ''OTP doesn't match'') (res_status 400 res)))
          else (Returned, s, res_json (Text ''Verify Your Email'') (res_status 401 res)))"

definition deleteUser_catch :: "jserror \<Rightarrow> state \<Rightarrow> response \<Rightarrow> state \<times> response" where
  "deleteUser_catch err s res = (s, res_json (ErrorMsg (message err)) (res_status 500 res))"

definition deleteUser :: "libs \<Rightarrow> world \<Rightarrow> request \<Rightarrow> state \<Rightarrow> state \<times> response" where
  "deleteUser L W req s =
     (case deleteUser_try L W req s res0 of
        (Returned, s', res) \<Rightarrow> (s', res)
      | (Thrown err, s', res) \<Rightarrow> deleteUser_catch err s' res)"

subsection \<open>refreshroute\<close>

definition refresh_cookie :: "string \<Rightarrow> string \<Rightarrow> nat \<Rightarrow> cookie" where
  "refresh_cookie n v age = (token_cookie n v age)\<lparr>httpOnly := True\<rparr>"

definition refreshroute_try ::
  "libs \<Rightarrow> world \<Rightarrow> request \<Rightarrow> state \<Rightarrow> response \<Rightarrow> completion \<times> state \<times> response" where
  "refreshroute_try L W req s res =
     (case cookies req of
        None \<Rightarrow> (Thrown (Error ''TypeError'' ''Cannot read properties of undefined''), s, res)
      | Some jar \<Rightarrow>
     (case jar ''RefreshToken'' of
        None \<Rightarrow> (Returned, s, res_json (ErrorMsg ''Refresh token missing'') (res_status 401 res))
      | Some refreshToken \<Rightarrow>
          if refreshToken = []
          then (Returned, s, res_json (ErrorMsg ''Refresh token missing'') (res_status 401 res))
          else
     (case verifyRefreshToken L refreshToken of
        Inl err \<Rightarrow> (Thrown err, s, res)
      | Inr None \<Rightarrow> (Returned, s, res_json (ErrorMsg ''Invalid refresh token'') (res_status 401 res))
      | Inr (Some userId) \<Rightarrow>
          if userId = []
          then (Returned, s, res_json (ErrorMsg ''Invalid refresh token'') (res_status 401 res))
          else
     (case call W Access_Token (Inr (AccessToken L userId)) of
        Inl err \<Rightarrow> (Thrown err, s, res)
      | Inr accessToken \<Rightarrow>
     (case call W Refresh_Token (Inr (RefreshToken L userId)) of
        Inl err \<Rightarrow> (Thrown err, s, res)
      | Inr refToken \<Rightarrow>
          (Returned, s,
           res_json (Refreshed accessToken refToken)
             (res_status 200
               (res_cookie (refresh_cookie ''RefreshToken'' refToken (30 * 24 * 60 * 60 * 1000))
                 (res_cookie (refresh_cookie ''AccessToken'' accessToken (20 * 60 * 1000)) res)))))))))"

definition refreshroute_catch :: "jserror \<Rightarrow> state \<Rightarrow> response \<Rightarrow> state \<times> response" where
  "refreshroute_catch err s res =
     (s,
      if name err = ''JsonWebTokenError''
      then res_json (ErrorMsg ''Invalid refresh token'') (res_status 401 res)
      else if name err = ''TokenExpiredError''
      then res_json (ErrorMsg ''Refresh token expired'') (res_status 401 res)
      else res_json (ErrorMsg ''Internal Server Error'') (res_status 500 res))"

definition refreshroute :: "libs \<Rightarrow> world \<Rightarrow> request \<Rightarrow> state \<Rightarrow> state \<times> response" where
  "refreshroute L W req s =
     (case refreshroute_try L W req s res0 of
        (Returned, s', res) \<Rightarrow> (s', res)
      | (Thrown err, s', res) \<Rightarrow> refreshroute_catch err s' res)"

section \<open>A test double for the collaborators\<close>

text \<open>
  Concrete stand-ins with the shape of the real collaborators, used to run the handlers on
  explicit requests: identifiers are 24 hexadecimal digits in either case, with the
  lower-case form as the canonical one, a hash is the salt followed by
  a digest and is 60 characters long, lower-casing and trimming act on ASCII, and the
  uploaded bytes are encoded in base64.
\<close>

definition ascii_lower :: "char \<Rightarrow> char" where
  "ascii_lower c =
     (case map_of (zip ''ABCDEFGHIJKLMNOPQRSTUVWXYZ'' ''abcdefghijklmnopqrstuvwxyz'') c of
        None \<Rightarrow> c | Some d \<Rightarrow> d)"

definition strip :: "string \<Rightarrow> string" where
  "strip s = rev (dropWhile (\<lambda>c. c = CHR '' '') (rev (dropWhile (\<lambda>c. c = CHR '' '') s)))"

definition sextet :: "nat \<Rightarrow> char" where
  "sextet n = ''ABCDEFGHIJKLMNOPQRSTUVWXYZabcdefghijklmnopqrstuvwxyz0123456789+/'' ! (n mod 64)"

fun base64 :: "8 word list \<Rightarrow> string" where
  "base64 (a # b # c # r) =
     (let n = unat a * 65536 + unat b * 256 + unat c
      in [sextet (n div 262144), sextet (n div 4096), sextet (n div 64), sextet n]) @ base64 r"
| "base64 [a, b] =
     (let n = unat a * 65536 + unat b * 256
      in [sextet (n div 262144), sextet (n div 4096), sextet (n div 64), CHR ''=''])"
| "base64 [a] =
     (let n = unat a * 65536
      in [sextet (n div 262144), sextet (n div 4096), CHR ''='', CHR ''=''])"
| "base64 [] = []"

definition fake_hash :: "string \<Rightarrow> string \<Rightarrow> string" where
  "fake_hash p salt =
     take 60 (salt @ p @ ''............................................................'')"

definition test_libs :: libs where
  "test_libs = \<lparr>
     ObjectId_isValid =
       (\<lambda>i. length i = 24 \<and> (\<forall>c \<in> set i. c \<in> set ''0123456789abcdefABCDEF'')),
     castObjectId =
       (\<lambda>i. if length i = 24 \<and> (\<forall>c \<in> set i. c \<in> set ''0123456789abcdefABCDEF'')
            then Some (map ascii_lower i) else None),
     bcrypt_hash = fake_hash,
     bcrypt_compare = (\<lambda>p h. h = fake_hash p (take 29 h)),
     validator_isEmail = (\<lambda>s. CHR ''@'' \<in> set s),
     toLowerCase = map ascii_lower,
     trim = strip,
     toString_base64 = base64,
     AccessToken = (\<lambda>i. ''access.'' @ i),
     RefreshToken = (\<lambda>i. ''refresh.'' @ i),
     verifyRefreshToken = (\<lambda>t. if take 8 t = ''refresh.'' then Inr (Some (drop 8 t))
                                else Inl (Error ''JsonWebTokenError'' ''jwt malformed''))\<rparr>"

definition test_world :: world where
  "test_world = \<lparr>throws = (\<lambda>_. None), genSalt = ''$2b$10$abcdefghijklmnopqrstuv'',
     generate = ''493817'', newObjectId = ''64b7f1a2c3d4e5f6a7b8c9d0'', now = 1700000000\<rparr>"

text \<open>A world in which every awaited call rejects, as when the database is unreachable.\<close>

definition failing_world :: world where
  "failing_world = test_world\<lparr>throws :=
     (\<lambda>_. Some (Error ''MongoNetworkError'' ''connect ECONNREFUSED 127.0.0.1:27017''))\<rparr>"

definition alice :: user where
  "alice = \<lparr>uid = ''64b7f1a2c3d4e5f6a7b8c9d1'', Username = ''alice'', email = ''alice@example.com'',
     password = fake_hash ''correct horse'' ''$2b$10$ABCDEFGHIJKLMNOPQRSTUV'',
     image = None, isVerified = True, createdAt = 1600000000, updatedAt = 1600000000\<rparr>"

definition bob :: user where
  "bob = \<lparr>uid = ''64b7f1a2c3d4e5f6a7b8c9d2'', Username = ''bob'', email = ''bob@example.com'',
     password = fake_hash ''hunter2hunter2'' ''$2b$10$ABCDEFGHIJKLMNOPQRSTUV'',
     image = None, isVerified = False, createdAt = 1600000000, updatedAt = 1600000000\<rparr>"

definition test_state :: state where
  "test_state = \<lparr>users = [alice, bob],
     otps = [\<lparr>otp_email = Some ''alice@example.com'', otp_code = Some ''271828''\<rparr>],
     mails = [], timers = [], logs = []\<rparr>"

text \<open>A request for the path identifier \<open>i\<close> with body \<open>b\<close>, carrying a token issued for \<open>i\<close>.\<close>

definition test_request :: "string \<Rightarrow> (string \<times> string) list \<Rightarrow> request" where
  "test_request i b = \<lparr>params_id = i, body = map_of b, req_file = None,
     payload = Some \<lparr>aud = Some i\<rparr>, cookies = Some (\<lambda>_. None)\<rparr>"

definition delete_alice :: "string \<Rightarrow> request" where
  "delete_alice code = test_request ''64b7f1a2c3d4e5f6a7b8c9d1''
     [(''email'', ''alice@example.com''), (''otp'', code)]"

definition change_alice_password :: request where
  "change_alice_password = test_request ''64b7f1a2c3d4e5f6a7b8c9d1''
     [(''oldPassword'', ''correct horse''), (''newPassword'', ''battery staple''),
      (''confirmNewPassword'', ''battery staple'')]"

definition change_password_malformed :: request where
  "change_password_malformed = test_request ''abc''
     [(''oldPassword'', ''correct horse''), (''newPassword'', ''battery staple''),
      (''confirmNewPassword'', ''battery staple'')]"

definition upload_alice :: request where
  "upload_alice = (test_request ''64b7f1a2c3d4e5f6a7b8c9d1'' [])
     \<lparr>req_file := Some \<lparr>buffer = Some [0x4D, 0x61, 0x6E]\<rparr>\<rparr>"

definition login_bob :: request where
  "login_bob = test_request [] [(''email'', ''bob@example.com''), (''password'', ''hunter2hunter2'')]"

definition register_carol :: "string \<Rightarrow> request" where
  "register_carol pw = test_request []
     [(''Username'', ''carol''), (''firstName'', ''Carol''), (''lastName'', ''Jones''),
      (''phoneNumber'', ''5550100''), (''email'', '' Carol@Example.com ''), (''password'', pw)]"

definition probe_request :: request where
  "probe_request = (test_request ''64b7f1a2c3d4e5f6a7b8c9d1'' [])
     \<lparr>cookies := Some (map_of [(''RefreshToken'', ''refresh.64b7f1a2c3d4e5f6a7b8c9d1'')])\<rparr>"

section \<open>Auxiliary facts\<close>

lemmas res_simps = res0_def res_status_def res_json_def res_cookie_def

lemmas test_defs = test_libs_def test_world_def test_state_def test_request_def alice_def
  bob_def fake_hash_def

lemma strict_markedForDeletion: "strict [(''markedForDeletion'', JBool True)] = []"
  by (simp add: strict_def userSchema_paths_def)

lemma update_first_touch:
  "\<exists>us'. update_first i (\<lambda>u. Inr (u\<lparr>updatedAt := n\<rparr>)) us = Inr us'
         \<and> map (\<lambda>v. v\<lparr>updatedAt := 0\<rparr>) us' = map (\<lambda>v. v\<lparr>updatedAt := 0\<rparr>) us"
  by (induction us) auto


lemma find_alice:
  "User_findById_impl test_libs (users test_state) ''64b7f1a2c3d4e5f6a7b8c9d1'' = Inr (Some alice)"
  by (simp add: User_findById_impl_def test_libs_def test_state_def alice_def ascii_lower_def)

lemma find_bob:
  "User_findById_impl test_libs (users test_state) ''64b7f1a2c3d4e5f6a7b8c9d2'' = Inr (Some bob)"
  by (simp add: User_findById_impl_def test_libs_def test_state_def alice_def bob_def
      ascii_lower_def)

text \<open>The same documents are found under the upper-case spelling of their identifiers.\<close>

lemma find_alice_upper:
  "User_findById_impl test_libs (users test_state) ''64B7F1A2C3D4E5F6A7B8C9D1'' = Inr (Some alice)"
  by (simp add: User_findById_impl_def test_libs_def test_state_def alice_def ascii_lower_def)

lemma find_bob_upper:
  "User_findById_impl test_libs (users test_state) ''64B7F1A2C3D4E5F6A7B8C9D2'' = Inr (Some bob)"
  by (simp add: User_findById_impl_def test_libs_def test_state_def alice_def bob_def
      ascii_lower_def)

lemma find_nobody:
  "User_findById_impl test_libs (users test_state) ''64b7f1a2c3d4e5f6a7b8c9d9'' = Inr None"
  by (simp add: User_findById_impl_def test_libs_def test_state_def alice_def bob_def
      ascii_lower_def)

lemma find_malformed:
  "User_findById_impl test_libs us ''abc'' = Inl (CastError ''abc'')"
  by (simp add: User_findById_impl_def test_libs_def)

lemma valid_ids:
  "ObjectId_isValid test_libs ''64b7f1a2c3d4e5f6a7b8c9d1''"
  "ObjectId_isValid test_libs ''64b7f1a2c3d4e5f6a7b8c9d2''"
  "ObjectId_isValid test_libs ''64b7f1a2c3d4e5f6a7b8c9d9''"
  "ObjectId_isValid test_libs ''64B7F1A2C3D4E5F6A7B8C9D1''"
  "ObjectId_isValid test_libs ''64B7F1A2C3D4E5F6A7B8C9D2''"
  "\<not> ObjectId_isValid test_libs ''abc''"
  by (simp_all add: test_libs_def)

lemma valid_alice_id: "ObjectId_isValid test_libs ''64b7f1a2c3d4e5f6a7b8c9d1''"
  by (rule valid_ids)

lemma valid_bob_id: "ObjectId_isValid test_libs ''64b7f1a2c3d4e5f6a7b8c9d2''"
  by (rule valid_ids)

lemma no_throws: "throws test_world opn = None"
  by (simp add: test_world_def)


text \<open>The message of a cast error is none of the messages the handlers enumerate.\<close>

lemma CastError_message:
  "message (CastError i) \<noteq> ''User not found''"
  "message (CastError i) \<noteq> ''User is not verified''"
  "message (CastError i) \<noteq> ''New passwords do not match''"
  "message (CastError i) \<noteq> ''Invalid old password''"
  "message (CastError i) \<noteq> ''Invalid credentials''"
  "message (CastError i) \<noteq> ''Invalid user ID format''"
  "message (CastError i) \<noteq> ''Invalid access token''"
  "message (CastError i) \<noteq> ''No image file provided''"
  by (simp_all add: CastError_def)

lemma User_findById_impl_Some:
  assumes "User_findById_impl L us i = Inr (Some u)"
  obtains oid where "castObjectId L i = Some oid" and "find (\<lambda>v. uid v = oid) us = Some u"
    and "uid u = oid"
proof -
  from assms obtain oid where c: "castObjectId L i = Some oid"
    and f: "find (\<lambda>v. uid v = oid) us = Some u"
    by (auto simp: User_findById_impl_def split: option.splits)
  from f have "uid u = oid"
    by (auto dest: find_Some_iff [THEN iffD1])
  with c f that show thesis
    by blast
qed

lemma update_first_find:
  assumes "find (\<lambda>v. uid v = i) us = Some u" and "f u = Inr u'" and "uid u' = i"
  shows "\<exists>us'. update_first i f us = Inr us' \<and> find (\<lambda>v. uid v = i) us' = Some u'"
  using assms by (induction us) (auto split: if_splits)


lemma User_update_password:
  assumes "User_findById_impl L us i = Inr (Some u)"
  shows "\<exists>us'. User_update_impl L W i [(''password'', JStr h)] us = Inr us'
           \<and> User_findById_impl L us' i = Inr (Some (u\<lparr>updatedAt := now W, password := h\<rparr>))"
proof -
  from assms obtain oid where c: "castObjectId L i = Some oid"
    and f: "find (\<lambda>v. uid v = oid) us = Some u" and i: "uid u = oid"
    by (rule User_findById_impl_Some)
  have "set_paths L (strict [(''password'', JStr h)]) (u\<lparr>updatedAt := now W\<rparr>)
          = Inr (u\<lparr>updatedAt := now W, password := h\<rparr>)"
    by (simp add: strict_def userSchema_paths_def set_path_def)
  with f i have "\<exists>us'. update_first oid
        (\<lambda>u. set_paths L (strict [(''password'', JStr h)]) (u\<lparr>updatedAt := now W\<rparr>)) us = Inr us'
      \<and> find (\<lambda>v. uid v = oid) us' = Some (u\<lparr>updatedAt := now W, password := h\<rparr>)"
    by (intro update_first_find) auto
  with c show ?thesis
    by (simp add: User_update_impl_def User_findById_impl_def)
qed

lemma User_update_image:
  assumes "User_findById_impl L us i = Inr (Some u)"
  shows "\<exists>us'. User_update_impl L W i [(''image'', JStr h)] us = Inr us'
           \<and> User_findById_impl L us' i = Inr (Some (u\<lparr>updatedAt := now W, image := Some h\<rparr>))"
proof -
  from assms obtain oid where c: "castObjectId L i = Some oid"
    and f: "find (\<lambda>v. uid v = oid) us = Some u" and i: "uid u = oid"
    by (rule User_findById_impl_Some)
  have "set_paths L (strict [(''image'', JStr h)]) (u\<lparr>updatedAt := now W\<rparr>)
          = Inr (u\<lparr>updatedAt := now W, image := Some h\<rparr>)"
    by (simp add: strict_def userSchema_paths_def set_path_def)
  with f i have "\<exists>us'. update_first oid
        (\<lambda>u. set_paths L (strict [(''image'', JStr h)]) (u\<lparr>updatedAt := now W\<rparr>)) us = Inr us'
      \<and> find (\<lambda>v. uid v = oid) us' = Some (u\<lparr>updatedAt := now W, image := Some h\<rparr>)"
    by (intro update_first_find) auto
  with c show ?thesis
    by (simp add: User_update_impl_def User_findById_impl_def)
qed

lemma register_object_Username:
  "map_of (strict (field ''Username'' a @ field ''firstName'' b @ field ''lastName'' c
       @ field ''phoneNumber'' d @ field ''email'' e
       @ [(''password'', JStr h), (''image'', JStr i), (''isVerified'', JBool False)])) ''Username''
   = map_option JStr a"
  by (simp add: field_def strict_def userSchema_paths_def split: option.splits)

lemma register_object_email:
  "map_of (strict (field ''Username'' a @ field ''firstName'' b @ field ''lastName'' c
       @ field ''phoneNumber'' d @ field ''email'' e
       @ [(''password'', JStr h), (''image'', JStr i), (''isVerified'', JBool False)])) ''email''
   = map_option JStr e"
  by (simp add: field_def strict_def userSchema_paths_def split: option.splits)

lemma register_object_rest:
  "map_of (strict (field ''Username'' a @ field ''firstName'' b @ field ''lastName'' c
       @ field ''phoneNumber'' d @ field ''email'' e
       @ [(''password'', JStr h), (''image'', JStr i), (''isVerified'', JBool False)])) ''password''
   = Some (JStr h)"
  "map_of (strict (field ''Username'' a @ field ''firstName'' b @ field ''lastName'' c
       @ field ''phoneNumber'' d @ field ''email'' e
       @ [(''password'', JStr h), (''image'', JStr i), (''isVerified'', JBool False)])) ''image''
   = Some (JStr i)"
  "map_of (strict (field ''Username'' a @ field ''firstName'' b @ field ''lastName'' c
       @ field ''phoneNumber'' d @ field ''email'' e
       @ [(''password'', JStr h), (''image'', JStr i), (''isVerified'', JBool False)])) ''isVerified''
   = Some (JBool False)"
  by (simp_all add: field_def strict_def userSchema_paths_def split: option.splits)

lemmas register_object = register_object_Username register_object_email register_object_rest

lemma User_create_impl_Inr:
  assumes "User_create_impl L W ob us = Inr (usr, us')"
  shows "us' = us @ [usr]
       \<and> (\<exists>v. map_of (strict ob) ''email'' = Some v \<and> email usr = email_setters L (castString v))"
  using assms
  by (auto simp: User_create_impl_def Let_def split: option.splits if_splits)

lemma User_create_impl_ok:
  assumes "map_of (strict ob) ''Username'' = Some (JStr n)"
    and "map_of (strict ob) ''email'' = Some (JStr e)"
    and "map_of (strict ob) ''password'' = Some (JStr h)"
    and "map_of (strict ob) ''image'' = Some (JStr i)"
    and "map_of (strict ob) ''isVerified'' = Some (JBool False)"
    and "2 \<le> length (trim L n)" and "length (trim L n) \<le> 50"
    and "email_setters L e \<noteq> []" and "validator_isEmail L (email_setters L e)"
    and "length (email_setters L e) \<le> 50"
    and "8 \<le> length h"
    and "\<forall>u \<in> set us. uid u \<noteq> newObjectId W \<and> Username u \<noteq> trim L n
                         \<and> email u \<noteq> email_setters L e"
  shows "User_create_impl L W ob us =
     Inr (\<lparr>uid = newObjectId W, Username = trim L n, email = email_setters L e, password = h,
            image = Some i, isVerified = False, createdAt = now W, updatedAt = now W\<rparr>,
          us @ [\<lparr>uid = newObjectId W, Username = trim L n, email = email_setters L e,
                  password = h, image = Some i, isVerified = False, createdAt = now W,
                  updatedAt = now W\<rparr>])"
proof -
  have n: "trim L n \<noteq> []" using assms(6) by auto
  have h: "h \<noteq> []" using assms(11) by auto
  have "Username_errors (Some (trim L n)) = []"
    using assms(6,7) n by (simp add: Username_errors_def path_errors_def required_def
        minlength_def maxlength_def)
  moreover have "email_errors L (Some (email_setters L e)) = []"
    using assms(8,9,10) by (simp add: email_errors_def path_errors_def required_def
        validate_def maxlength_def)
  moreover have "password_errors (Some h) = []"
    using assms(11) h by (simp add: password_errors_def path_errors_def required_def
        minlength_def)
  ultimately show ?thesis
    using assms(1-5,12) by (simp add: User_create_impl_def Let_def)
qed

lemma register_201_created:
  assumes "statusCode (snd (register L W req s)) = 201"
  shows "\<exists>e u. body req ''email'' = Some e \<and> u \<in> set (users (fst (register L W req s)))
               \<and> email u = email_setters L e"
proof -
  obtain c s' r where t: "register_try L W req s res0 = (c, s', r)"
    by (metis prod_cases3)
  show ?thesis
  proof (cases c)
    case (Thrown err)
    with t assms show ?thesis
      by (simp add: register_def register_catch_def res_simps)
  next
    case Returned
    with t assms have st: "statusCode r = 201" and f: "fst (register L W req s) = s'"
      by (simp_all add: register_def)
    from t Returned st obtain usr us hashedPwd i where
      c: "User_create_impl L W
           (field ''Username'' (body req ''Username'')
            @ field ''firstName'' (body req ''firstName'')
            @ field ''lastName'' (body req ''lastName'')
            @ field ''phoneNumber'' (body req ''phoneNumber'')
            @ field ''email'' (body req ''email'')
            @ [(''password'', JStr hashedPwd), (''image'', JStr i), (''isVerified'', JBool False)])
           (users s) = Inr (usr, us)"
      and u: "users s' = us"
      by (auto simp: register_try_def call_def Let_def res_simps sendMailer_def
          split: option.splits sum.splits prod.splits)
    from User_create_impl_Inr [OF c] show ?thesis
      unfolding f u register_object_email
      by (cases "body req ''email''") auto
  qed
qed

lemma carol_fields:
  "body (register_carol pw) ''Username'' = Some ''carol''"
  "body (register_carol pw) ''email'' = Some '' Carol@Example.com ''"
  "body (register_carol pw) ''password'' = Some pw"
  "body (register_carol pw) ''firstName'' = Some ''Carol''"
  "body (register_carol pw) ''lastName'' = Some ''Jones''"
  by (simp_all add: register_carol_def test_request_def)

lemma carol_setters:
  "trim test_libs ''carol'' = ''carol''"
  "email_setters test_libs '' Carol@Example.com '' = ''carol@example.com''"
  by (simp_all add: email_setters_def test_libs_def strip_def ascii_lower_def)

lemma carol_is_new:
  "\<forall>u \<in> set (users test_state). uid u \<noteq> newObjectId test_world \<and> Username u \<noteq> ''carol''
        \<and> email u \<noteq> ''carol@example.com''"
  by (simp add: test_state_def test_world_def alice_def bob_def)


text \<open>A \<open>try\<close> block that throws has not touched the response.\<close>

lemma register_try_Thrown:
  "register_try L W req s res = (Thrown err, s', r) \<Longrightarrow> r = res"
  by (auto simp: register_try_def call_def Let_def
      split: option.splits sum.splits prod.splits if_splits)

lemma refreshroute_try_Thrown:
  "refreshroute_try L W req s res = (Thrown err, s', r) \<Longrightarrow> r = res"
  by (auto simp: refreshroute_try_def call_def
      split: option.splits sum.splits prod.splits if_splits)

lemma deleteUser_try_Thrown:
  "deleteUser_try L W req s res = (Thrown err, s', r) \<Longrightarrow> r = res"
  by (auto simp: deleteUser_try_def call_def Let_def
      split: option.splits sum.splits prod.splits if_splits)


lemma login_try_Thrown:
  "login_try L W req s res = (Thrown err, s', r) \<Longrightarrow> r = res"
  by (auto simp: login_try_def call_def
      split: option.splits sum.splits prod.splits if_splits)

lemma updatePassword_try_Thrown:
  "updatePassword_try L W req s res = (Thrown err, s', r) \<Longrightarrow> r = res"
  by (auto simp: updatePassword_try_def call_def
      split: option.splits sum.splits prod.splits if_splits)

lemma updateImage_try_Thrown:
  "updateImage_try L W req s res = (Thrown err, s', r) \<Longrightarrow> r = res"
  by (auto simp: updateImage_try_def call_def
      split: option.splits sum.splits prod.splits if_splits)

lemma userInfo_try_Thrown:
  "userInfo_try L W req s res = (Thrown err, s', r) \<Longrightarrow> r = res"
  by (auto simp: userInfo_try_def call_def
      split: option.splits sum.splits prod.splits if_splits)

lemma failing_throws:
  "throws failing_world opn = Some (Error ''MongoNetworkError'' ''connect ECONNREFUSED 127.0.0.1:27017'')"
  by (simp add: failing_world_def)

lemma probe_fields:
  "params_id probe_request = ''64b7f1a2c3d4e5f6a7b8c9d1''"
  "payload probe_request = Some \<lparr>aud = Some ''64b7f1a2c3d4e5f6a7b8c9d1''\<rparr>"
  "cookies probe_request = Some (map_of [(''RefreshToken'', ''refresh.64b7f1a2c3d4e5f6a7b8c9d1'')])"
  by (simp_all add: probe_request_def test_request_def)


section \<open>Deleting an account\<close>

text \<open>
  C5. A delete request for an existing, verified user whose submitted pair of email and
  code matches no record of the one-time-password collection is answered with status 400
  and the text "OTP doesn't match", and the whole server state (user documents,
  one-time-password records, pending timers, mails, log) is what it was.
\<close>

theorem deleteUser_otp_mismatch:
  assumes "throws W User_findOne = None" and "throws W OTP_findOne = None"
    and "User_findById_impl L (users s) (params_id req) = Inr (Some u)" and "isVerified u"
    and "OTP_findOne_impl (otps s) (body req ''email'') (body req ''otp'') = None"
  shows "deleteUser L W req s =
           (s, \<lparr>statusCode = 400, res_cookies = [], sent = Some (Text ''OTP doesn't match'')\<rparr>)"
  using assms by (simp add: deleteUser_def deleteUser_try_def call_def res_simps)

theorem deleteUser_otp_mismatch_witness:
  "deleteUser test_libs test_world (delete_alice ''000000'') test_state =
     (test_state,
      \<lparr>statusCode = 400, res_cookies = [], sent = Some (Text ''OTP doesn't match'')\<rparr>)"
proof -
  have h1: "throws test_world User_findOne = None" and h2: "throws test_world OTP_findOne = None"
    by (simp_all add: test_world_def)
  have h3: "User_findById_impl test_libs (users test_state) (params_id (delete_alice ''000000''))
              = Inr (Some alice)"
    by (simp add: delete_alice_def test_request_def find_alice)
  have h4: "isVerified alice"
    by (simp add: alice_def)
  have h5: "OTP_findOne_impl (otps test_state) (body (delete_alice ''000000'') ''email'')
              (body (delete_alice ''000000'') ''otp'') = None"
    by (simp add: OTP_findOne_impl_def delete_alice_def test_request_def test_state_def)
  show ?thesis
    by (rule deleteUser_otp_mismatch [OF h1 h2 h3 h4 h5])
qed

text \<open>
  C1. A delete request for an existing, verified user whose pair of email and code matches
  a one-time-password record is answered with status 200 and "User Deleted Successfully",
  but nothing is scheduled: the guard of \<open>setTimeout\<close> reads \<open>markedForDeletion\<close> from the
  document fetched before the update, where it is undefined, so the timers stay as they
  were; and every stored user document keeps all its fields except \<open>updatedAt\<close>.
\<close>

theorem deleteUser_match_schedules_nothing:
  assumes "throws W User_findOne = None" and "throws W OTP_findOne = None"
    and "throws W User_findOneAndUpdate = None"
    and "User_findById_impl L (users s) (params_id req) = Inr (Some u)" and "isVerified u"
    and "OTP_findOne_impl (otps s) (body req ''email'') (body req ''otp'') = Some r"
  shows "snd (deleteUser L W req s) =
           \<lparr>statusCode = 200, res_cookies = [], sent = Some (Text ''User Deleted Successfully'')\<rparr>
       \<and> timers (fst (deleteUser L W req s)) = timers s
       \<and> map (\<lambda>v. v\<lparr>updatedAt := 0\<rparr>) (users (fst (deleteUser L W req s)))
           = map (\<lambda>v. v\<lparr>updatedAt := 0\<rparr>) (users s)"
proof -
  from assms(4) obtain oid where cast: "castObjectId L (params_id req) = Some oid"
    by (rule User_findById_impl_Some)
  obtain us' where upd: "User_update_impl L W (params_id req)
                           [(''markedForDeletion'', JBool True)] (users s) = Inr us'"
    and same: "map (\<lambda>v. v\<lparr>updatedAt := 0\<rparr>) us' = map (\<lambda>v. v\<lparr>updatedAt := 0\<rparr>) (users s)"
    using update_first_touch [of oid "now W" "users s"] cast
    by (auto simp: User_update_impl_def strict_markedForDeletion)
  have stale: "get_path u ''markedForDeletion'' = None"
    by (simp add: get_path_def)
  from assms upd same stale show ?thesis
    by (simp add: deleteUser_def deleteUser_try_def call_def res_simps sendMailer_def)
qed

theorem deleteUser_match_schedules_nothing_witness:
  "snd (deleteUser test_libs test_world (delete_alice ''271828'') test_state) =
      \<lparr>statusCode = 200, res_cookies = [], sent = Some (Text ''User Deleted Successfully'')\<rparr>
   \<and> timers (fst (deleteUser test_libs test_world (delete_alice ''271828'') test_state)) = []
   \<and> map (\<lambda>v. v\<lparr>updatedAt := 0\<rparr>)
        (users (fst (deleteUser test_libs test_world (delete_alice ''271828'') test_state)))
      = map (\<lambda>v. v\<lparr>updatedAt := 0\<rparr>) [alice, bob]"
proof -
  have h1: "throws test_world User_findOne = None" and h2: "throws test_world OTP_findOne = None"
    and h3: "throws test_world User_findOneAndUpdate = None"
    by (simp_all add: test_world_def)
  have h4: "User_findById_impl test_libs (users test_state) (params_id (delete_alice ''271828''))
              = Inr (Some alice)"
    by (simp add: delete_alice_def test_request_def find_alice)
  have h5: "isVerified alice"
    by (simp add: alice_def)
  have h6: "OTP_findOne_impl (otps test_state) (body (delete_alice ''271828'') ''email'')
              (body (delete_alice ''271828'') ''otp'')
            = Some \<lparr>otp_email = Some ''alice@example.com'', otp_code = Some ''271828''\<rparr>"
    by (simp add: OTP_findOne_impl_def delete_alice_def test_request_def test_state_def)
  have t: "timers test_state = []" and us: "users test_state = [alice, bob]"
    by (simp_all add: test_state_def)
  show ?thesis
    using deleteUser_match_schedules_nothing [OF h1 h2 h3 h4 h5 h6]
    by (simp only: t us)
qed

text \<open>
  C6. The User schema declares no \<open>markedForDeletion\<close> path: reading that property of a
  user document yields undefined, and the update \<open>{ markedForDeletion: true }\<close> of
  \<open>deleteUser\<close> has the effect of the empty update.
\<close>

theorem markedForDeletion_undeclared:
  "''markedForDeletion'' \<notin> set userSchema_paths
   \<and> get_path u ''markedForDeletion'' = None
   \<and> User_update_impl L W i [(''markedForDeletion'', JBool True)] us = User_update_impl L W i [] us"
  by (simp add: userSchema_paths_def get_path_def User_update_impl_def strict_def
      split: option.splits)

theorem markedForDeletion_undeclared_witness:
  "get_path alice ''markedForDeletion'' = None
   \<and> User_update_impl test_libs test_world ''64b7f1a2c3d4e5f6a7b8c9d1''
        [(''markedForDeletion'', JBool True)] [alice, bob]
       = Inr [alice\<lparr>updatedAt := 1700000000\<rparr>, bob]"
proof -
  have "User_update_impl test_libs test_world ''64b7f1a2c3d4e5f6a7b8c9d1'' [] [alice, bob]
          = Inr [alice\<lparr>updatedAt := 1700000000\<rparr>, bob]"
    by (simp add: User_update_impl_def strict_def alice_def test_world_def test_libs_def
        ascii_lower_def)
  with markedForDeletion_undeclared [of alice test_libs test_world "''64b7f1a2c3d4e5f6a7b8c9d1''" "[alice, bob]"]
  show ?thesis by simp
qed

section \<open>Reading and changing an account\<close>

text \<open>
  C4. When the request carries a token payload and the lookup of an identifier that passed
  the format check returns, \<open>userInfo\<close> decides in this order: a malformed identifier gives
  400 "Invalid user ID format"; an audience claim different from the path identifier gives
  401 "Invalid access token"; no user with the identifier gives 404 "User not found"; an
  unverified user gives 401 "User is not verified"; otherwise the answer is 200 with the
  stored document itself as \<open>data\<close>, the hashed password included.
\<close>

theorem userInfo_checks_in_order:
  assumes "throws W User_findById = None" and "payload req = Some pl"
    and "ObjectId_isValid L (params_id req) \<longrightarrow>
           User_findById_impl L (users s) (params_id req) = Inr found"
  shows "snd (userInfo L W req s) =
     (if \<not> ObjectId_isValid L (params_id req) then
        \<lparr>statusCode = 400, res_cookies = [], sent = Some (ErrorMsg ''Invalid user ID format'')\<rparr>
      else if aud pl \<noteq> Some (params_id req) then
        \<lparr>statusCode = 401, res_cookies = [], sent = Some (ErrorMsg ''Invalid access token'')\<rparr>
      else case found of
        None \<Rightarrow> \<lparr>statusCode = 404, res_cookies = [], sent = Some (ErrorMsg ''User not found'')\<rparr>
      | Some u \<Rightarrow>
          if \<not> isVerified u then
            \<lparr>statusCode = 401, res_cookies = [], sent = Some (ErrorMsg ''User is not verified'')\<rparr>
          else \<lparr>statusCode = 200, res_cookies = [], sent = Some (Data u)\<rparr>)"
  using assms
  by (simp add: userInfo_def userInfo_try_def userInfo_catch_def call_def res_simps
      split: option.splits)

theorem userInfo_checks_in_order_witness:
  "snd (userInfo test_libs test_world (test_request ''64b7f1a2c3d4e5f6a7b8c9d1'' []) test_state) =
     \<lparr>statusCode = 200, res_cookies = [], sent = Some (Data alice)\<rparr>
   \<and> password alice = ''$2b$10$ABCDEFGHIJKLMNOPQRSTUVcorrect horse..................''
   \<and> snd (userInfo test_libs test_world (test_request ''64B7F1A2C3D4E5F6A7B8C9D1'' []) test_state) =
     \<lparr>statusCode = 200, res_cookies = [], sent = Some (Data alice)\<rparr>"
proof -
  have h2: "payload (test_request ''64b7f1a2c3d4e5f6a7b8c9d1'' [])
              = Some \<lparr>aud = Some ''64b7f1a2c3d4e5f6a7b8c9d1''\<rparr>"
    and h2': "payload (test_request ''64B7F1A2C3D4E5F6A7B8C9D1'' [])
              = Some \<lparr>aud = Some ''64B7F1A2C3D4E5F6A7B8C9D1''\<rparr>"
    by (simp_all add: test_request_def)
  have p: "params_id (test_request ''64b7f1a2c3d4e5f6a7b8c9d1'' []) = ''64b7f1a2c3d4e5f6a7b8c9d1''"
    and p': "params_id (test_request ''64B7F1A2C3D4E5F6A7B8C9D1'' []) = ''64B7F1A2C3D4E5F6A7B8C9D1''"
    by (simp_all add: test_request_def)
  have h3: "ObjectId_isValid test_libs (params_id (test_request ''64b7f1a2c3d4e5f6a7b8c9d1'' [])) \<longrightarrow>
      User_findById_impl test_libs (users test_state)
        (params_id (test_request ''64b7f1a2c3d4e5f6a7b8c9d1'' [])) = Inr (Some alice)"
    by (simp add: p find_alice)
  have h3': "ObjectId_isValid test_libs (params_id (test_request ''64B7F1A2C3D4E5F6A7B8C9D1'' [])) \<longrightarrow>
      User_findById_impl test_libs (users test_state)
        (params_id (test_request ''64B7F1A2C3D4E5F6A7B8C9D1'' [])) = Inr (Some alice)"
    by (simp add: p' find_alice_upper)
  have v: "isVerified alice"
    by (simp add: alice_def)
  have pw: "password alice = ''$2b$10$ABCDEFGHIJKLMNOPQRSTUVcorrect horse..................''"
    by (simp add: alice_def fake_hash_def)
  from userInfo_checks_in_order [OF no_throws h2 h3] userInfo_checks_in_order [OF no_throws h2' h3'] pw
  show ?thesis
    by (simp add: p p' valid_ids v)
qed

text \<open>
  C7. \<open>updatePassword\<close> does not answer 404 for every identifier that no user has. For a
  request that carries the three passwords as strings and whose other calls return: when
  the path identifier cannot be cast, the lookup rejects and the answer is the fixed
  message "Internal server error. Please try again later." under status 200; when the
  lookup returns, the handler decides in this order: no user with the identifier gives 404
  "User not found"; an unverified user gives 401 "User is not verified"; a new password
  different from its confirmation gives 400 "New passwords do not match"; an old password
  that does not match the stored hash gives 401 "Invalid old password"; otherwise the
  answer is 200 and the stored document then holds the hash of the new password under the
  salt just generated.
\<close>

theorem updatePassword_checks_after_cast:
  assumes "throws W User_findById = None" and "throws W Bcrypt_compare = None"
    and "throws W Bcrypt_genSalt = None" and "throws W Bcrypt_hash = None"
    and "throws W User_findByIdAndUpdate = None"
    and "body req ''oldPassword'' = Some old" and "body req ''newPassword'' = Some new"
    and "body req ''confirmNewPassword'' = Some conf"
  shows "(castObjectId L (params_id req) = None \<longrightarrow>
        snd (updatePassword L W req s) =
          \<lparr>statusCode = 200, res_cookies = [],
            sent = Some (ErrorMsg ''Internal server error. Please try again later.'')\<rparr>)
   \<and> (User_findById_impl L (users s) (params_id req) = Inr found \<longrightarrow>
        snd (updatePassword L W req s) =
          (case found of
             None \<Rightarrow> \<lparr>statusCode = 404, res_cookies = [], sent = Some (ErrorMsg ''User not found'')\<rparr>
           | Some u \<Rightarrow>
               if \<not> isVerified u then
                 \<lparr>statusCode = 401, res_cookies = [], sent = Some (ErrorMsg ''User is not verified'')\<rparr>
               else if new \<noteq> conf then
                 \<lparr>statusCode = 400, res_cookies = [],
                   sent = Some (ErrorMsg ''New passwords do not match'')\<rparr>
               else if \<not> bcrypt_compare L old (password u) then
                 \<lparr>statusCode = 401, res_cookies = [], sent = Some (ErrorMsg ''Invalid old password'')\<rparr>
               else
                 \<lparr>statusCode = 200, res_cookies = [],
                   sent = Some (Message ''Password updated successfully'')\<rparr>))
   \<and> (User_findById_impl L (users s) (params_id req) = Inr (Some v) \<and> isVerified v \<and> new = conf
          \<and> bcrypt_compare L old (password v) \<longrightarrow>
        User_findById_impl L (users (fst (updatePassword L W req s))) (params_id req)
          = Inr (Some (v\<lparr>updatedAt := now W, password := bcrypt_hash L new (genSalt W)\<rparr>)))"
proof (intro conjI impI)
  assume "castObjectId L (params_id req) = None"
  then have "User_findById_impl L (users s) (params_id req) = Inl (CastError (params_id req))"
    by (simp add: User_findById_impl_def)
  with assms(1) show "snd (updatePassword L W req s) =
      \<lparr>statusCode = 200, res_cookies = [],
        sent = Some (ErrorMsg ''Internal server error. Please try again later.'')\<rparr>"
    by (simp add: updatePassword_def updatePassword_try_def updatePassword_catch_def call_def
        res_simps CastError_message)
next
  assume found: "User_findById_impl L (users s) (params_id req) = Inr found"
  show "snd (updatePassword L W req s) =
          (case found of
             None \<Rightarrow> \<lparr>statusCode = 404, res_cookies = [], sent = Some (ErrorMsg ''User not found'')\<rparr>
           | Some u \<Rightarrow>
               if \<not> isVerified u then
                 \<lparr>statusCode = 401, res_cookies = [], sent = Some (ErrorMsg ''User is not verified'')\<rparr>
               else if new \<noteq> conf then
                 \<lparr>statusCode = 400, res_cookies = [],
                   sent = Some (ErrorMsg ''New passwords do not match'')\<rparr>
               else if \<not> bcrypt_compare L old (password u) then
                 \<lparr>statusCode = 401, res_cookies = [], sent = Some (ErrorMsg ''Invalid old password'')\<rparr>
               else
                 \<lparr>statusCode = 200, res_cookies = [],
                   sent = Some (Message ''Password updated successfully'')\<rparr>)"
  proof (cases found)
    case None
    with assms found show ?thesis
      by (simp add: updatePassword_def updatePassword_try_def updatePassword_catch_def call_def
          res_simps)
  next
    case (Some u)
    obtain us' where "User_update_impl L W (params_id req)
          [(''password'', JStr (bcrypt_hash L new (genSalt W)))] (users s) = Inr us'"
      using User_update_password [of L "users s" "params_id req" u] found Some by blast
    with assms found Some show ?thesis
      by (auto simp: updatePassword_def updatePassword_try_def updatePassword_catch_def call_def
          res_simps bcrypt_compare_impl_def bcrypt_hash_impl_def)
  qed
next
  assume a: "User_findById_impl L (users s) (params_id req) = Inr (Some v) \<and> isVerified v
      \<and> new = conf \<and> bcrypt_compare L old (password v)"
  obtain us' where upd: "User_update_impl L W (params_id req)
        [(''password'', JStr (bcrypt_hash L new (genSalt W)))] (users s) = Inr us'"
    and stored: "User_findById_impl L us' (params_id req)
        = Inr (Some (v\<lparr>updatedAt := now W, password := bcrypt_hash L new (genSalt W)\<rparr>))"
    using User_update_password [of L "users s" "params_id req" v] a by blast
  from assms a upd stored
  show "User_findById_impl L (users (fst (updatePassword L W req s))) (params_id req)
          = Inr (Some (v\<lparr>updatedAt := now W, password := bcrypt_hash L new (genSalt W)\<rparr>))"
    by (auto simp: updatePassword_def updatePassword_try_def updatePassword_catch_def call_def
        res_simps bcrypt_compare_impl_def bcrypt_hash_impl_def)
qed

theorem updatePassword_checks_after_cast_witness:
  "snd (updatePassword test_libs test_world change_password_malformed test_state) =
     \<lparr>statusCode = 200, res_cookies = [],
       sent = Some (ErrorMsg ''Internal server error. Please try again later.'')\<rparr>
   \<and> snd (updatePassword test_libs test_world change_alice_password test_state) =
     \<lparr>statusCode = 200, res_cookies = [], sent = Some (Message ''Password updated successfully'')\<rparr>
   \<and> User_findById_impl test_libs
        (users (fst (updatePassword test_libs test_world change_alice_password test_state)))
        ''64b7f1a2c3d4e5f6a7b8c9d1''
      = Inr (Some (alice\<lparr>updatedAt := 1700000000,
                password := ''$2b$10$abcdefghijklmnopqrstuvbattery staple.................''\<rparr>))"
proof -
  have b1: "body change_alice_password ''oldPassword'' = Some ''correct horse''"
    and b2: "body change_alice_password ''newPassword'' = Some ''battery staple''"
    and b3: "body change_alice_password ''confirmNewPassword'' = Some ''battery staple''"
    and p: "params_id change_alice_password = ''64b7f1a2c3d4e5f6a7b8c9d1''"
    by (simp_all add: change_alice_password_def test_request_def)
  have m1: "body change_password_malformed ''oldPassword'' = Some ''correct horse''"
    and m2: "body change_password_malformed ''newPassword'' = Some ''battery staple''"
    and m3: "body change_password_malformed ''confirmNewPassword'' = Some ''battery staple''"
    and q: "params_id change_password_malformed = ''abc''"
    by (simp_all add: change_password_malformed_def test_request_def)
  have bad: "castObjectId test_libs ''abc'' = None"
    by (simp add: test_libs_def)
  have v: "isVerified alice"
    by (simp add: alice_def)
  have c: "bcrypt_compare test_libs ''correct horse'' (password alice)"
    by (simp add: test_libs_def alice_def fake_hash_def)
  have h: "bcrypt_hash test_libs ''battery staple'' (genSalt test_world)
             = ''$2b$10$abcdefghijklmnopqrstuvbattery staple.................''"
    by (simp add: test_libs_def test_world_def fake_hash_def)
  have n: "now test_world = 1700000000"
    by (simp add: test_world_def)
  from updatePassword_checks_after_cast
         [OF no_throws no_throws no_throws no_throws no_throws m1 m2 m3,
          where L = test_libs and s = test_state]
       updatePassword_checks_after_cast
         [OF no_throws no_throws no_throws no_throws no_throws b1 b2 b3,
          where L = test_libs and s = test_state and v = alice and found = "Some alice"]
  show ?thesis
    by (simp add: p q bad find_alice v c h n)
qed

text \<open>
  C8 (as amended). When the calls return, an uploaded file carries its bytes and the lookup
  of an identifier that passed the format check returns, \<open>updateImage\<close> decides in this
  order: a malformed identifier gives 400; no user with the identifier gives 404; an
  existing but unverified user gives 401; an absent file gives 400 only for an existing,
  verified user; otherwise the answer is 200 and the stored document then holds the
  base64 encoding of the uploaded bytes as its image.
\<close>

theorem updateImage_checks_in_order:
  assumes "throws W User_findById = None" and "throws W User_findByIdAndUpdate = None"
    and "\<forall>f. req_file req = Some f \<longrightarrow> buffer f \<noteq> None"
    and "ObjectId_isValid L (params_id req) \<longrightarrow>
           User_findById_impl L (users s) (params_id req) = Inr found"
  shows "snd (updateImage L W req s) =
     (if \<not> ObjectId_isValid L (params_id req) then
        \<lparr>statusCode = 400, res_cookies = [], sent = Some (ErrorMsg ''Invalid user ID format'')\<rparr>
      else case found of
        None \<Rightarrow> \<lparr>statusCode = 404, res_cookies = [], sent = Some (ErrorMsg ''User not found'')\<rparr>
      | Some u \<Rightarrow>
          if \<not> isVerified u then
            \<lparr>statusCode = 401, res_cookies = [], sent = Some (ErrorMsg ''User is not verified'')\<rparr>
          else case req_file req of
            None \<Rightarrow>
              \<lparr>statusCode = 400, res_cookies = [], sent = Some (ErrorMsg ''No image file provided'')\<rparr>
          | Some f \<Rightarrow>
              \<lparr>statusCode = 200, res_cookies = [], sent = Some (Message ''Image updated successfully'')\<rparr>)
   \<and> (ObjectId_isValid L (params_id req) \<and> found = Some v \<and> isVerified v
          \<and> req_file req = Some g \<and> buffer g = Some bytes' \<longrightarrow>
        User_findById_impl L (users (fst (updateImage L W req s))) (params_id req)
          = Inr (Some (v\<lparr>updatedAt := now W, image := Some (toString_base64 L bytes')\<rparr>)))"
proof (cases "ObjectId_isValid L (params_id req)")
  case False
  then show ?thesis
    by (simp add: updateImage_def updateImage_try_def updateImage_catch_def res_simps)
next
  case True
  with assms(4) have found: "User_findById_impl L (users s) (params_id req) = Inr found"
    by simp
  show ?thesis
  proof (cases found)
    case None
    with assms(1,2) True found show ?thesis
      by (simp add: updateImage_def updateImage_try_def updateImage_catch_def call_def res_simps)
  next
    case (Some u)
    show ?thesis
    proof (cases "req_file req")
      case None
      with assms(1,2) True found Some show ?thesis
        by (simp add: updateImage_def updateImage_try_def updateImage_catch_def call_def
            res_simps)
    next
      case f: (Some f)
      then obtain bytes where b: "buffer f = Some bytes"
        using assms(3) by blast
      obtain us' where upd: "User_update_impl L W (params_id req)
            [(''image'', JStr (toString_base64 L bytes))] (users s) = Inr us'"
        and stored: "User_findById_impl L us' (params_id req)
            = Inr (Some (u\<lparr>updatedAt := now W, image := Some (toString_base64 L bytes)\<rparr>))"
        using User_update_image [of L "users s" "params_id req" u] found Some by blast
      from assms(1,2) True found Some f b upd stored show ?thesis
        by (auto simp: updateImage_def updateImage_try_def updateImage_catch_def call_def
            res_simps)
    qed
  qed
qed

theorem updateImage_checks_in_order_witness:
  "snd (updateImage test_libs test_world upload_alice test_state) =
     \<lparr>statusCode = 200, res_cookies = [], sent = Some (Message ''Image updated successfully'')\<rparr>
   \<and> User_findById_impl test_libs
        (users (fst (updateImage test_libs test_world upload_alice test_state)))
        ''64b7f1a2c3d4e5f6a7b8c9d1''
      = Inr (Some (alice\<lparr>updatedAt := 1700000000, image := Some ''TWFu''\<rparr>))
   \<and> snd (updateImage test_libs test_world (test_request ''64B7F1A2C3D4E5F6A7B8C9D2'' []) test_state)
      = \<lparr>statusCode = 401, res_cookies = [], sent = Some (ErrorMsg ''User is not verified'')\<rparr>"
proof -
  have f: "req_file upload_alice = Some \<lparr>buffer = Some [0x4D, 0x61, 0x6E]\<rparr>"
    and p: "params_id upload_alice = ''64b7f1a2c3d4e5f6a7b8c9d1''"
    by (simp_all add: upload_alice_def test_request_def)
  have f': "\<forall>f. req_file upload_alice = Some f \<longrightarrow> buffer f \<noteq> None"
    using f by auto
  have l: "ObjectId_isValid test_libs (params_id upload_alice) \<longrightarrow>
      User_findById_impl test_libs (users test_state) (params_id upload_alice) = Inr (Some alice)"
    by (simp add: p find_alice)
  have v: "isVerified alice"
    by (simp add: alice_def)
  have e: "toString_base64 test_libs [0x4D, 0x61, 0x6E] = ''TWFu''"
    by (simp add: test_libs_def sextet_def)
  have n: "now test_world = 1700000000"
    by (simp add: test_world_def)
  have q: "params_id (test_request ''64B7F1A2C3D4E5F6A7B8C9D2'' []) = ''64B7F1A2C3D4E5F6A7B8C9D2''"
    and g: "req_file (test_request ''64B7F1A2C3D4E5F6A7B8C9D2'' []) = None"
    by (simp_all add: test_request_def)
  have g': "\<forall>f. req_file (test_request ''64B7F1A2C3D4E5F6A7B8C9D2'' []) = Some f
                \<longrightarrow> buffer f \<noteq> None"
    using g by simp
  have l': "ObjectId_isValid test_libs (params_id (test_request ''64B7F1A2C3D4E5F6A7B8C9D2'' [])) \<longrightarrow>
      User_findById_impl test_libs (users test_state)
        (params_id (test_request ''64B7F1A2C3D4E5F6A7B8C9D2'' [])) = Inr (Some bob)"
    by (simp add: q find_bob_upper)
  have w: "\<not> isVerified bob"
    by (simp add: bob_def)
  from updateImage_checks_in_order
         [OF no_throws no_throws f' l, where v = alice
            and g = "\<lparr>buffer = Some [0x4D, 0x61, 0x6E]\<rparr>" and bytes' = "[0x4D, 0x61, 0x6E]"]
       updateImage_checks_in_order [OF no_throws no_throws g' l']
  show ?thesis
    by (simp add: p f valid_ids v e n q w)
qed

text \<open>
  C8 as stated fails: an absent file does not always give 400. Without an uploaded file, the
  answer is 404 for a well-formed identifier that no user has, and 401 for the identifier
  of an unverified user.
\<close>

theorem updateImage_absent_file_counterexample:
  "req_file (test_request ''64b7f1a2c3d4e5f6a7b8c9d9'' []) = None
   \<and> snd (updateImage test_libs test_world (test_request ''64b7f1a2c3d4e5f6a7b8c9d9'' []) test_state)
      = \<lparr>statusCode = 404, res_cookies = [], sent = Some (ErrorMsg ''User not found'')\<rparr>
   \<and> req_file (test_request ''64b7f1a2c3d4e5f6a7b8c9d2'' []) = None
   \<and> snd (updateImage test_libs test_world (test_request ''64b7f1a2c3d4e5f6a7b8c9d2'' []) test_state)
      = \<lparr>statusCode = 401, res_cookies = [], sent = Some (ErrorMsg ''User is not verified'')\<rparr>"
proof -
  have "params_id (test_request ''64b7f1a2c3d4e5f6a7b8c9d9'' []) = ''64b7f1a2c3d4e5f6a7b8c9d9''"
    and "params_id (test_request ''64b7f1a2c3d4e5f6a7b8c9d2'' []) = ''64b7f1a2c3d4e5f6a7b8c9d2''"
    and "req_file (test_request ''64b7f1a2c3d4e5f6a7b8c9d9'' []) = None"
    and "req_file (test_request ''64b7f1a2c3d4e5f6a7b8c9d2'' []) = None"
    and "\<not> isVerified bob"
    by (simp_all add: test_request_def bob_def)
  then show ?thesis
    by (simp add: updateImage_def updateImage_try_def updateImage_catch_def call_def res_simps
        no_throws valid_ids find_nobody find_bob)
qed

section \<open>Logging in\<close>

text \<open>
  C10. For a user found by the submitted email whose stored hash matches the submitted
  password, \<open>login\<close> answers 200, sets both token cookies and returns both tokens, whatever
  the value of \<open>isVerified\<close>; whereas for an unverified user \<open>updatePassword\<close>,
  \<open>updateImage\<close>, \<open>userInfo\<close> and \<open>deleteUser\<close> answer 401.
\<close>

theorem login_ignores_isVerified:
  assumes "throws W User_findOne = None" and "throws W Bcrypt_compare = None"
    and "throws W Access_Token = None" and "throws W Refresh_Token = None"
    and "User_findOne_email L (users s) (body req ''email'') = Some u"
    and "body req ''password'' = Some p" and "bcrypt_compare L p (password u)"
  shows "login L W req s =
     (s, \<lparr>statusCode = 200,
          res_cookies = [token_cookie ''AccessToken'' (AccessToken L (uid u)) (20 * 60 * 1000),
                         token_cookie ''RefreshToken'' (RefreshToken L (uid u))
                           (30 * 24 * 60 * 60 * 1000)],
          sent = Some (Tokens (AccessToken L (uid u)) (RefreshToken L (uid u)) (uid u) (email u))\<rparr>)
   \<and> (throws W User_findById = None \<and> User_findById_impl L (users s) (params_id r) = Inr (Some v)
        \<and> \<not> isVerified v \<longrightarrow>
        snd (updatePassword L W r s) =
          \<lparr>statusCode = 401, res_cookies = [], sent = Some (ErrorMsg ''User is not verified'')\<rparr>
      \<and> (ObjectId_isValid L (params_id r) \<longrightarrow>
          snd (updateImage L W r s) =
            \<lparr>statusCode = 401, res_cookies = [], sent = Some (ErrorMsg ''User is not verified'')\<rparr>)
      \<and> (ObjectId_isValid L (params_id r) \<and> payload r = Some \<lparr>aud = Some (params_id r)\<rparr> \<longrightarrow>
          snd (userInfo L W r s) =
            \<lparr>statusCode = 401, res_cookies = [], sent = Some (ErrorMsg ''User is not verified'')\<rparr>)
      \<and> snd (deleteUser L W r s) =
          \<lparr>statusCode = 401, res_cookies = [], sent = Some (Text ''Verify Your Email'')\<rparr>)"
proof -
  have "login L W req s =
     (s, \<lparr>statusCode = 200,
          res_cookies = [token_cookie ''AccessToken'' (AccessToken L (uid u)) (20 * 60 * 1000),
                         token_cookie ''RefreshToken'' (RefreshToken L (uid u))
                           (30 * 24 * 60 * 60 * 1000)],
          sent = Some (Tokens (AccessToken L (uid u)) (RefreshToken L (uid u)) (uid u) (email u))\<rparr>)"
    using assms
    by (simp add: login_def login_try_def call_def res_simps bcrypt_compare_impl_def)
  moreover have "snd (updatePassword L W r s) =
      \<lparr>statusCode = 401, res_cookies = [], sent = Some (ErrorMsg ''User is not verified'')\<rparr>"
    if "throws W User_findById = None" "User_findById_impl L (users s) (params_id r) = Inr (Some v)"
      "\<not> isVerified v"
    using that
    by (simp add: updatePassword_def updatePassword_try_def updatePassword_catch_def call_def
        res_simps)
  moreover have "snd (updateImage L W r s) =
      \<lparr>statusCode = 401, res_cookies = [], sent = Some (ErrorMsg ''User is not verified'')\<rparr>"
    if "throws W User_findById = None" "User_findById_impl L (users s) (params_id r) = Inr (Some v)"
      "\<not> isVerified v" "ObjectId_isValid L (params_id r)"
    using that
    by (simp add: updateImage_def updateImage_try_def updateImage_catch_def call_def res_simps)
  moreover have "snd (userInfo L W r s) =
      \<lparr>statusCode = 401, res_cookies = [], sent = Some (ErrorMsg ''User is not verified'')\<rparr>"
    if "throws W User_findById = None" "User_findById_impl L (users s) (params_id r) = Inr (Some v)"
      "\<not> isVerified v" "ObjectId_isValid L (params_id r)"
      "payload r = Some \<lparr>aud = Some (params_id r)\<rparr>"
    using that
    by (simp add: userInfo_def userInfo_try_def userInfo_catch_def call_def res_simps)
  moreover have "snd (deleteUser L W r s) =
      \<lparr>statusCode = 401, res_cookies = [], sent = Some (Text ''Verify Your Email'')\<rparr>"
    if "User_findById_impl L (users s) (params_id r) = Inr (Some v)" "\<not> isVerified v"
    using that assms(1)
    by (simp add: deleteUser_def deleteUser_try_def call_def res_simps)
  ultimately show ?thesis
    by blast
qed

theorem login_ignores_isVerified_witness:
  "\<not> isVerified bob
   \<and> login test_libs test_world login_bob test_state =
     (test_state,
      \<lparr>statusCode = 200,
        res_cookies =
          [token_cookie ''AccessToken'' ''access.64b7f1a2c3d4e5f6a7b8c9d2'' (20 * 60 * 1000),
           token_cookie ''RefreshToken'' ''refresh.64b7f1a2c3d4e5f6a7b8c9d2''
             (30 * 24 * 60 * 60 * 1000)],
        sent = Some (Tokens ''access.64b7f1a2c3d4e5f6a7b8c9d2'' ''refresh.64b7f1a2c3d4e5f6a7b8c9d2''
                       ''64b7f1a2c3d4e5f6a7b8c9d2'' ''bob@example.com'')\<rparr>)
   \<and> statusCode (snd (updatePassword test_libs test_world
                        (test_request ''64b7f1a2c3d4e5f6a7b8c9d2'' []) test_state)) = 401
   \<and> statusCode (snd (updateImage test_libs test_world
                        (test_request ''64b7f1a2c3d4e5f6a7b8c9d2'' []) test_state)) = 401
   \<and> statusCode (snd (userInfo test_libs test_world
                        (test_request ''64b7f1a2c3d4e5f6a7b8c9d2'' []) test_state)) = 401
   \<and> statusCode (snd (deleteUser test_libs test_world
                        (test_request ''64b7f1a2c3d4e5f6a7b8c9d2'' []) test_state)) = 401"
proof -
  have h5: "User_findOne_email test_libs (users test_state) (body login_bob ''email'') = Some bob"
    by (simp add: User_findOne_email_def email_setters_def login_bob_def test_defs strip_def
        ascii_lower_def)
  have h6: "body login_bob ''password'' = Some ''hunter2hunter2''"
    by (simp add: login_bob_def test_request_def)
  have h7: "bcrypt_compare test_libs ''hunter2hunter2'' (password bob)"
    by (simp add: test_libs_def bob_def fake_hash_def)
  have w: "\<not> isVerified bob" and i: "uid bob = ''64b7f1a2c3d4e5f6a7b8c9d2''"
    and e: "email bob = ''bob@example.com''"
    by (simp_all add: bob_def)
  have t: "AccessToken test_libs ''64b7f1a2c3d4e5f6a7b8c9d2'' = ''access.64b7f1a2c3d4e5f6a7b8c9d2''"
    "RefreshToken test_libs ''64b7f1a2c3d4e5f6a7b8c9d2'' = ''refresh.64b7f1a2c3d4e5f6a7b8c9d2''"
    by (simp_all add: test_libs_def)
  have q: "params_id (test_request ''64b7f1a2c3d4e5f6a7b8c9d2'' []) = ''64b7f1a2c3d4e5f6a7b8c9d2''"
    and pl: "payload (test_request ''64b7f1a2c3d4e5f6a7b8c9d2'' [])
               = Some \<lparr>aud = Some ''64b7f1a2c3d4e5f6a7b8c9d2''\<rparr>"
    by (simp_all add: test_request_def)
  from login_ignores_isVerified [OF no_throws no_throws no_throws no_throws h5 h6 h7,
         where r = "test_request ''64b7f1a2c3d4e5f6a7b8c9d2'' []" and v = bob]
  show ?thesis
    by (simp add: w i e t q pl no_throws find_bob valid_bob_id)
qed

section \<open>Registration\<close>

text \<open>
  C2. The minimum length of eight characters is checked on the string handed to
  \<open>User.create\<close>, which is the hash: when no call rejects, the name and the email pass their
  validators, no stored user shares identifier, name or email, and the hash has at least
  eight characters, \<open>register\<close> answers 201 and the collection gains the new document,
  whatever the length of the submitted password.
\<close>

theorem register_validates_the_hash:
  assumes "\<forall>opn. throws W opn = None"
    and "body req ''Username'' = Some n" and "body req ''email'' = Some e"
    and "body req ''password'' = Some p"
    and "2 \<le> length (trim L n)" and "length (trim L n) \<le> 50"
    and "email_setters L e \<noteq> []" and "validator_isEmail L (email_setters L e)"
    and "length (email_setters L e) \<le> 50"
    and "\<forall>u \<in> set (users s). uid u \<noteq> newObjectId W \<and> Username u \<noteq> trim L n
                                \<and> email u \<noteq> email_setters L e"
    and "8 \<le> length (bcrypt_hash L p (genSalt W))"
  shows "statusCode (snd (register L W req s)) = 201
       \<and> users (fst (register L W req s)) = users s @
           [\<lparr>uid = newObjectId W, Username = trim L n, email = email_setters L e,
             password = bcrypt_hash L p (genSalt W),
             image = Some (''https://api.dicebear.com/5.x/initials/svg?seed=''
                           @ interpolate (body req ''firstName'') @ '' ''
                           @ interpolate (body req ''lastName'')),
             isVerified = False, createdAt = now W, updatedAt = now W\<rparr>]"
proof -
  let ?ob = "field ''Username'' (body req ''Username'')
             @ field ''firstName'' (body req ''firstName'')
             @ field ''lastName'' (body req ''lastName'')
             @ field ''phoneNumber'' (body req ''phoneNumber'')
             @ field ''email'' (body req ''email'')
             @ [(''password'', JStr (bcrypt_hash L p (genSalt W))),
                (''image'', JStr (''https://api.dicebear.com/5.x/initials/svg?seed=''
                    @ interpolate (body req ''firstName'') @ '' ''
                    @ interpolate (body req ''lastName''))),
                (''isVerified'', JBool False)]"
  have nodup: "User_findOne_email L (users s) (body req ''email'') = None"
    using assms(3,10) by (auto simp: User_findOne_email_def find_None_iff)
  have created: "User_create_impl L W ?ob (users s) =
     Inr (\<lparr>uid = newObjectId W, Username = trim L n, email = email_setters L e,
            password = bcrypt_hash L p (genSalt W),
            image = Some (''https://api.dicebear.com/5.x/initials/svg?seed=''
                          @ interpolate (body req ''firstName'') @ '' ''
                          @ interpolate (body req ''lastName'')),
            isVerified = False, createdAt = now W, updatedAt = now W\<rparr>,
          users s @ [\<lparr>uid = newObjectId W, Username = trim L n, email = email_setters L e,
            password = bcrypt_hash L p (genSalt W),
            image = Some (''https://api.dicebear.com/5.x/initials/svg?seed=''
                          @ interpolate (body req ''firstName'') @ '' ''
                          @ interpolate (body req ''lastName'')),
            isVerified = False, createdAt = now W, updatedAt = now W\<rparr>])"
    by (rule User_create_impl_ok)
       (simp_all add: register_object assms(2,3) assms(5-11))
  show ?thesis
    using assms(1,4) nodup created
    by (simp add: register_def register_try_def call_def bcrypt_hash_impl_def Let_def res_simps
        sendMailer_def OTP_create_impl_def)
qed

theorem register_validates_the_hash_witness:
  "length ''abc'' < 8
   \<and> statusCode (snd (register test_libs test_world (register_carol ''abc'') test_state)) = 201
   \<and> users (fst (register test_libs test_world (register_carol ''abc'') test_state)) =
       [alice, bob,
        \<lparr>uid = ''64b7f1a2c3d4e5f6a7b8c9d0'', Username = ''carol'', email = ''carol@example.com'',
          password = ''$2b$10$abcdefghijklmnopqrstuvabc............................'',
          image = Some ''https://api.dicebear.com/5.x/initials/svg?seed=Carol Jones'',
          isVerified = False, createdAt = 1700000000, updatedAt = 1700000000\<rparr>]"
proof -
  have h1: "\<forall>opn. throws test_world opn = None"
    by (simp add: test_world_def)
  have h5: "2 \<le> length (trim test_libs ''carol'')" and h6: "length (trim test_libs ''carol'') \<le> 50"
    and h7: "email_setters test_libs '' Carol@Example.com '' \<noteq> []"
    and h9: "length (email_setters test_libs '' Carol@Example.com '') \<le> 50"
    by (simp_all add: carol_setters)
  have h8: "validator_isEmail test_libs (email_setters test_libs '' Carol@Example.com '')"
    by (simp add: carol_setters) (simp add: test_libs_def)
  have h10: "\<forall>u \<in> set (users test_state). uid u \<noteq> newObjectId test_world
               \<and> Username u \<noteq> trim test_libs ''carol''
               \<and> email u \<noteq> email_setters test_libs '' Carol@Example.com ''"
    using carol_is_new by (simp add: carol_setters)
  have hash: "bcrypt_hash test_libs ''abc'' (genSalt test_world)
                = ''$2b$10$abcdefghijklmnopqrstuvabc............................''"
    by (simp add: test_libs_def test_world_def fake_hash_def)
  have h11: "8 \<le> length (bcrypt_hash test_libs ''abc'' (genSalt test_world))"
    by (simp add: hash)
  have w: "newObjectId test_world = ''64b7f1a2c3d4e5f6a7b8c9d0''" "now test_world = 1700000000"
    by (simp_all add: test_world_def)
  have us: "users test_state = [alice, bob]"
    by (simp add: test_state_def)
  from register_validates_the_hash
         [OF h1 carol_fields(1) carol_fields(2) carol_fields(3) h5 h6 h7 h8 h9 h10 h11]
  show ?thesis
    by (simp add: carol_fields carol_setters hash w us interpolate_def)
qed

text \<open>
  C9. When a registration is answered with 201, a second registration carrying the same
  email, made in the state the first one left and with a lookup that returns, is answered
  with 409 and the message "User already exists. Try signing up with a different email.",
  and leaves that state as it is: no user document and no one-time-password record is added.
\<close>

theorem register_same_email_conflict:
  assumes "register L W1 req1 s = (s1, r1)" and "statusCode r1 = 201"
    and "body req2 ''email'' = body req1 ''email''" and "throws W2 User_findOne = None"
  shows "register L W2 req2 s1 =
     (s1, \<lparr>statusCode = 409, res_cookies = [],
           sent = Some (Message ''User already exists. Try signing up with a different email.'')\<rparr>)"
proof -
  from assms(1,2) have "statusCode (snd (register L W1 req1 s)) = 201"
    and s1: "fst (register L W1 req1 s) = s1"
    by simp_all
  from register_201_created [OF this(1)] s1 assms(3)
  obtain e u where e: "body req2 ''email'' = Some e" and u: "u \<in> set (users s1)"
    and m: "email u = email_setters L e"
    by auto
  from u m have "find (\<lambda>u. email u = email_setters L e) (users s1) \<noteq> None"
    by (auto simp: find_None_iff)
  then obtain d where "User_findOne_email L (users s1) (body req2 ''email'') = Some d"
    using e by (auto simp: User_findOne_email_def)
  with assms(4) show ?thesis
    by (simp add: register_def register_try_def call_def res_simps)
qed

theorem register_same_email_conflict_witness:
  "statusCode (snd (register test_libs test_world (register_carol ''longenough1'') test_state)) = 201
   \<and> register test_libs test_world (register_carol ''longenough1'')
       (fst (register test_libs test_world (register_carol ''longenough1'') test_state)) =
     (fst (register test_libs test_world (register_carol ''longenough1'') test_state),
      \<lparr>statusCode = 409, res_cookies = [],
        sent = Some (Message ''User already exists. Try signing up with a different email.'')\<rparr>)"
proof -
  have h1: "\<forall>opn. throws test_world opn = None"
    by (simp add: test_world_def)
  have h8: "validator_isEmail test_libs (email_setters test_libs '' Carol@Example.com '')"
    by (simp add: carol_setters) (simp add: test_libs_def)
  have h10: "\<forall>u \<in> set (users test_state). uid u \<noteq> newObjectId test_world
               \<and> Username u \<noteq> trim test_libs ''carol''
               \<and> email u \<noteq> email_setters test_libs '' Carol@Example.com ''"
    using carol_is_new by (simp add: carol_setters)
  have h11: "8 \<le> length (bcrypt_hash test_libs ''longenough1'' (genSalt test_world))"
    by (simp add: test_libs_def test_world_def fake_hash_def)
  have created: "statusCode (snd (register test_libs test_world (register_carol ''longenough1'')
                    test_state)) = 201"
    using User_create_impl_ok h1 h8 h10 h11
    by (simp add: register_def register_try_def call_def bcrypt_hash_impl_def Let_def res_simps
        sendMailer_def OTP_create_impl_def User_findOne_email_def carol_fields carol_setters
        register_object find_None_iff [THEN iffD2] test_state_def alice_def bob_def)
  have first: "register test_libs test_world (register_carol ''longenough1'') test_state =
      (fst (register test_libs test_world (register_carol ''longenough1'') test_state),
       snd (register test_libs test_world (register_carol ''longenough1'') test_state))"
    by simp
  from register_same_email_conflict [OF first created refl no_throws] created
  show ?thesis
    by simp
qed

section \<open>Failures outside the enumerated errors\<close>

text \<open>
  C3. An unanticipated failure is not always answered with status 500 and a fixed message.
  When the \<open>try\<close> block of a handler throws an error that the handler does not enumerate:
  \<open>register\<close> answers 500 with the fixed message "Internal server error" and \<open>refreshroute\<close>
  answers 500 with the fixed message "Internal Server Error"; but \<open>deleteUser\<close> answers 500
  with the message of the error itself as body, and \<open>login\<close>, \<open>updatePassword\<close>,
  \<open>updateImage\<close> and \<open>userInfo\<close> send the fixed message "Internal server error. Please try
  again later." under status 200, their \<open>catch\<close> never setting a status on that branch.
\<close>

theorem unanticipated_failure_responses:
  "(register_try L W req s res0 = (Thrown err, s', r) \<longrightarrow>
      snd (register L W req s) =
        \<lparr>statusCode = 500, res_cookies = [], sent = Some (Message ''Internal server error'')\<rparr>)
   \<and> (refreshroute_try L W req s res0 = (Thrown err, s', r)
        \<and> name err \<noteq> ''JsonWebTokenError'' \<and> name err \<noteq> ''TokenExpiredError'' \<longrightarrow>
      snd (refreshroute L W req s) =
        \<lparr>statusCode = 500, res_cookies = [], sent = Some (ErrorMsg ''Internal Server Error'')\<rparr>)
   \<and> (deleteUser_try L W req s res0 = (Thrown err, s', r) \<longrightarrow>
      snd (deleteUser L W req s) =
        \<lparr>statusCode = 500, res_cookies = [], sent = Some (ErrorMsg (message err))\<rparr>)
   \<and> (login_try L W req s res0 = (Thrown err, s', r)
        \<and> message err \<noteq> ''User not found'' \<and> message err \<noteq> ''Invalid credentials'' \<longrightarrow>
      snd (login L W req s) =
        \<lparr>statusCode = 200, res_cookies = [], sent = Some (ErrorMsg ''Internal server error. Please try again later.'')\<rparr>)
   \<and> (updatePassword_try L W req s res0 = (Thrown err, s', r)
        \<and> message err \<noteq> ''User not found'' \<and> message err \<noteq> ''User is not verified''
        \<and> message err \<noteq> ''New passwords do not match''
        \<and> message err \<noteq> ''Invalid old password'' \<longrightarrow>
      snd (updatePassword L W req s) =
        \<lparr>statusCode = 200, res_cookies = [], sent = Some (ErrorMsg ''Internal server error. Please try again later.'')\<rparr>)
   \<and> (updateImage_try L W req s res0 = (Thrown err, s', r)
        \<and> message err \<noteq> ''Invalid user ID format'' \<and> message err \<noteq> ''User not found''
        \<and> message err \<noteq> ''User is not verified''
        \<and> message err \<noteq> ''No image file provided'' \<longrightarrow>
      snd (updateImage L W req s) =
        \<lparr>statusCode = 200, res_cookies = [], sent = Some (ErrorMsg ''Internal server error. Please try again later.'')\<rparr>)
   \<and> (userInfo_try L W req s res0 = (Thrown err, s', r)
        \<and> message err \<noteq> ''Invalid user ID format'' \<and> message err \<noteq> ''Invalid access token''
        \<and> message err \<noteq> ''User not found'' \<and> message err \<noteq> ''User is not verified'' \<longrightarrow>
      snd (userInfo L W req s) =
        \<lparr>statusCode = 200, res_cookies = [], sent = Some (ErrorMsg ''Internal server error. Please try again later.'')\<rparr>)"
proof (intro conjI impI)
  assume "register_try L W req s res0 = (Thrown err, s', r)"
  with register_try_Thrown [OF this]
  show "snd (register L W req s) =
        \<lparr>statusCode = 500, res_cookies = [], sent = Some (Message ''Internal server error'')\<rparr>"
    by (simp add: register_def register_catch_def res_simps)
next
  assume a: "refreshroute_try L W req s res0 = (Thrown err, s', r)
        \<and> name err \<noteq> ''JsonWebTokenError'' \<and> name err \<noteq> ''TokenExpiredError''"
  with refreshroute_try_Thrown [of L W req s res0 err s' r]
  show "snd (refreshroute L W req s) =
        \<lparr>statusCode = 500, res_cookies = [], sent = Some (ErrorMsg ''Internal Server Error'')\<rparr>"
    by (simp add: refreshroute_def refreshroute_catch_def res_simps)
next
  assume "deleteUser_try L W req s res0 = (Thrown err, s', r)"
  with deleteUser_try_Thrown [OF this]
  show "snd (deleteUser L W req s) =
        \<lparr>statusCode = 500, res_cookies = [], sent = Some (ErrorMsg (message err))\<rparr>"
    by (simp add: deleteUser_def deleteUser_catch_def res_simps)
next
  assume a: "login_try L W req s res0 = (Thrown err, s', r)
        \<and> message err \<noteq> ''User not found'' \<and> message err \<noteq> ''Invalid credentials''"
  with login_try_Thrown [of L W req s res0 err s' r]
  show "snd (login L W req s) =
        \<lparr>statusCode = 200, res_cookies = [], sent = Some (ErrorMsg ''Internal server error. Please try again later.'')\<rparr>"
    by (simp add: login_def login_catch_def res_simps)
next
  assume a: "updatePassword_try L W req s res0 = (Thrown err, s', r)
        \<and> message err \<noteq> ''User not found'' \<and> message err \<noteq> ''User is not verified''
        \<and> message err \<noteq> ''New passwords do not match''
        \<and> message err \<noteq> ''Invalid old password''"
  with updatePassword_try_Thrown [of L W req s res0 err s' r]
  show "snd (updatePassword L W req s) =
        \<lparr>statusCode = 200, res_cookies = [], sent = Some (ErrorMsg ''Internal server error. Please try again later.'')\<rparr>"
    by (simp add: updatePassword_def updatePassword_catch_def res_simps)
next
  assume a: "updateImage_try L W req s res0 = (Thrown err, s', r)
        \<and> message err \<noteq> ''Invalid user ID format'' \<and> message err \<noteq> ''User not found''
        \<and> message err \<noteq> ''User is not verified''
        \<and> message err \<noteq> ''No image file provided''"
  with updateImage_try_Thrown [of L W req s res0 err s' r]
  show "snd (updateImage L W req s) =
        \<lparr>statusCode = 200, res_cookies = [], sent = Some (ErrorMsg ''Internal server error. Please try again later.'')\<rparr>"
    by (simp add: updateImage_def updateImage_catch_def res_simps)
next
  assume a: "userInfo_try L W req s res0 = (Thrown err, s', r)
        \<and> message err \<noteq> ''Invalid user ID format'' \<and> message err \<noteq> ''Invalid access token''
        \<and> message err \<noteq> ''User not found'' \<and> message err \<noteq> ''User is not verified''"
  with userInfo_try_Thrown [of L W req s res0 err s' r]
  show "snd (userInfo L W req s) =
        \<lparr>statusCode = 200, res_cookies = [], sent = Some (ErrorMsg ''Internal server error. Please try again later.'')\<rparr>"
    by (simp add: userInfo_def userInfo_catch_def res_simps)
qed

theorem unanticipated_failure_responses_witness:
  "snd (register test_libs failing_world probe_request test_state) =
      \<lparr>statusCode = 500, res_cookies = [], sent = Some (Message ''Internal server error'')\<rparr>
   \<and> snd (refreshroute test_libs failing_world probe_request test_state) =
      \<lparr>statusCode = 500, res_cookies = [], sent = Some (ErrorMsg ''Internal Server Error'')\<rparr>
   \<and> snd (deleteUser test_libs failing_world probe_request test_state) =
      \<lparr>statusCode = 500, res_cookies = [],
        sent = Some (ErrorMsg ''connect ECONNREFUSED 127.0.0.1:27017'')\<rparr>
   \<and> snd (login test_libs failing_world probe_request test_state) =
      \<lparr>statusCode = 200, res_cookies = [], sent = Some (ErrorMsg ''Internal server error. Please try again later.'')\<rparr>
   \<and> snd (updatePassword test_libs failing_world probe_request test_state) =
      \<lparr>statusCode = 200, res_cookies = [], sent = Some (ErrorMsg ''Internal server error. Please try again later.'')\<rparr>
   \<and> snd (updateImage test_libs failing_world probe_request test_state) =
      \<lparr>statusCode = 200, res_cookies = [], sent = Some (ErrorMsg ''Internal server error. Please try again later.'')\<rparr>
   \<and> snd (userInfo test_libs failing_world probe_request test_state) =
      \<lparr>statusCode = 200, res_cookies = [], sent = Some (ErrorMsg ''Internal server error. Please try again later.'')\<rparr>"
proof -
  let ?e = "Error ''MongoNetworkError'' ''connect ECONNREFUSED 127.0.0.1:27017''"
  have t1: "register_try test_libs failing_world probe_request test_state res0
              = (Thrown ?e, test_state, res0)"
    by (simp add: register_try_def call_def failing_throws)
  have t2: "refreshroute_try test_libs failing_world probe_request test_state res0
              = (Thrown ?e, test_state, res0)"
    by (simp add: refreshroute_try_def call_def failing_throws probe_fields test_libs_def)
  have t3: "deleteUser_try test_libs failing_world probe_request test_state res0
              = (Thrown ?e, test_state, res0)"
    by (simp add: deleteUser_try_def call_def failing_throws)
  have t4: "login_try test_libs failing_world probe_request test_state res0
              = (Thrown ?e, test_state, res0)"
    by (simp add: login_try_def call_def failing_throws)
  have t5: "updatePassword_try test_libs failing_world probe_request test_state res0
              = (Thrown ?e, test_state, res0)"
    by (simp add: updatePassword_try_def call_def failing_throws)
  have t6: "updateImage_try test_libs failing_world probe_request test_state res0
              = (Thrown ?e, test_state, res0)"
    by (simp add: updateImage_try_def call_def failing_throws probe_fields valid_alice_id)
  have t7: "userInfo_try test_libs failing_world probe_request test_state res0
              = (Thrown ?e, test_state, res0)"
    by (simp add: userInfo_try_def call_def failing_throws probe_fields valid_alice_id)
  from unanticipated_failure_responses
         [where L = test_libs and W = failing_world and req = probe_request and s = test_state
            and err = ?e and s' = test_state and r = res0]
  show ?thesis
    by (simp add: t1 t2 t3 t4 t5 t6 t7)
qed

text \<open>
  The same at a request any client can send: for the path identifier \<open>abc\<close>, which cannot be
  cast, the lookup of \<open>deleteUser\<close> rejects and the answer carries the text of the cast error,
  while \<open>updatePassword\<close> answers with its fixed message under status 200.
\<close>

theorem unanticipated_failure_at_malformed_id:
  "snd (deleteUser test_libs test_world (test_request ''abc'' []) test_state) =
      \<lparr>statusCode = 500, res_cookies = [],
        sent = Some (ErrorMsg (message (CastError ''abc'')))\<rparr>
   \<and> snd (updatePassword test_libs test_world (test_request ''abc'' []) test_state) =
      \<lparr>statusCode = 200, res_cookies = [], sent = Some (ErrorMsg ''Internal server error. Please try again later.'')\<rparr>"
proof -
  have "params_id (test_request ''abc'' []) = ''abc''"
    by (simp add: test_request_def)
  then show ?thesis
    by (simp add: deleteUser_def deleteUser_try_def deleteUser_catch_def updatePassword_def
        updatePassword_try_def updatePassword_catch_def call_def no_throws res_simps
        find_malformed CastError_message)
qed


end
